theory Spec2Isabelle
  imports Main "HOL-Library.Word"
begin

unbundle bit_operations_syntax

section \<open>Exceptions\<close>

text \<open>
  Every failure in \<open>terminal_base.h\<close> is reported by \<open>throw std::runtime_error(msg)\<close>.
  A member function that can throw returns \<open>error + 'a\<close>, with \<open>Inl\<close> the exception,
  paired with the state of the operating system after the call.
\<close>

datatype error = runtime_error string

section \<open>The POSIX terminal interface (\<open>#else\<close> branch)\<close>

subsection \<open>Data of \<open>termios.h\<close> and \<open>sys/ioctl.h\<close>\<close>

type_synonym tcflag_t = "32 word"
type_synonym cc_t = "8 word"
type_synonym cchar = "8 word"

record termios =
  c_iflag :: tcflag_t
  c_oflag :: tcflag_t
  c_cflag :: tcflag_t
  c_lflag :: tcflag_t
  c_cc :: "cc_t list"

record winsize =
  ws_row :: "16 word"
  ws_col :: "16 word"
  ws_xpixel :: "16 word"
  ws_ypixel :: "16 word"

text \<open>
  The flag masks and the indices into \<open>c_cc\<close> are macros of the system header, which
  is not part of the repository. They are given their Linux values
  (\<open>asm-generic/termbits.h\<close>, written there in octal).
\<close>

definition BRKINT :: tcflag_t where "BRKINT = 2"
definition ICRNL :: tcflag_t where "ICRNL = 256"
definition INPCK :: tcflag_t where "INPCK = 16"
definition ISTRIP :: tcflag_t where "ISTRIP = 32"
definition IXON :: tcflag_t where "IXON = 1024"
definition CS8 :: tcflag_t where "CS8 = 48"
definition ECHO :: tcflag_t where "ECHO = 8"
definition ICANON :: tcflag_t where "ICANON = 2"
definition IEXTEN :: tcflag_t where "IEXTEN = 32768"
definition ISIG :: tcflag_t where "ISIG = 1"
definition VTIME :: nat where "VTIME = 5"
definition VMIN :: nat where "VMIN = 6"

definition STDIN_FILENO :: int where "STDIN_FILENO = 0"
definition STDOUT_FILENO :: int where "STDOUT_FILENO = 1"
definition EAGAIN :: int where "EAGAIN = 11"

datatype optional_actions = TCSANOW | TCSADRAIN | TCSAFLUSH

subsection \<open>The operating system as explicit state\<close>

text \<open>
  The state the four system calls of the POSIX branch act on. Standard input and
  standard output both name the controlling terminal. \<open>script\<close> is the environment's
  schedule of failures: each system call takes the next entry, \<open>Some e\<close> makes the call
  fail with \<open>errno = e\<close>, \<open>None\<close> (or an exhausted schedule) lets it proceed.
\<close>

record posix_os =
  tty :: termios
  inq :: "cchar list"
  window :: winsize
  errno :: int
  script :: "int option list"

definition next_outcome :: "posix_os \<Rightarrow> int option \<times> posix_os" where
  "next_outcome w =
     (case script w of
        [] \<Rightarrow> (None, w)
      | f # fs \<Rightarrow> (f, w\<lparr>script := fs\<rparr>))"

text \<open>\<open>tcgetattr(fd, &t)\<close>: \<open>None\<close> stands for the return value \<open>-1\<close>.\<close>

definition tcgetattr :: "int \<Rightarrow> posix_os \<Rightarrow> termios option \<times> posix_os" where
  "tcgetattr fd w =
     (case next_outcome w of
        (Some e, w') \<Rightarrow> (None, w'\<lparr>errno := e\<rparr>)
      | (None, w') \<Rightarrow> (Some (tty w'), w'))"

text \<open>
  \<open>tcsetattr(fd, actions, &t)\<close> returns \<open>0\<close> or \<open>-1\<close>. A failing call changes
  nothing; a successful one installs the attributes, and with \<open>TCSAFLUSH\<close> discards
  the input received but not yet read.
\<close>

definition tcsetattr :: "int \<Rightarrow> optional_actions \<Rightarrow> termios \<Rightarrow> posix_os \<Rightarrow> int \<times> posix_os" where
  "tcsetattr fd act t w =
     (case next_outcome w of
        (Some e, w') \<Rightarrow> (- 1, w'\<lparr>errno := e\<rparr>)
      | (None, w') \<Rightarrow>
          (0, w'\<lparr>tty := t, inq := (if act = TCSAFLUSH then [] else inq w')\<rparr>))"

text \<open>
  \<open>read(fd, s, 1)\<close> on a terminal in the mode the constructor installs (\<open>ICANON\<close>
  off, \<open>VMIN\<close> and \<open>VTIME\<close> 0): the result is the return value and the content of
  \<open>*s\<close> after the call. With no input it returns 0 without waiting, as it does at end
  of file. On a terminal in line mode \<open>read\<close> waits for a complete line; that is not
  modelled, so this definition describes \<open>read\<close> between the constructor and the
  destructor only, and nothing below relies on its returning at once outside that time.
\<close>

definition read_fd :: "int \<Rightarrow> cchar \<Rightarrow> posix_os \<Rightarrow> (int \<times> cchar) \<times> posix_os" where
  "read_fd fd s w =
     (case next_outcome w of
        (Some e, w') \<Rightarrow> ((- 1, s), w'\<lparr>errno := e\<rparr>)
      | (None, w') \<Rightarrow>
          (case inq w' of
             [] \<Rightarrow> ((0, s), w')
           | b # bs \<Rightarrow> ((1, b), w'\<lparr>inq := bs\<rparr>)))"

text \<open>\<open>ioctl(fd, TIOCGWINSZ, &ws)\<close>: \<open>None\<close> stands for the return value \<open>-1\<close>.\<close>

definition ioctl_TIOCGWINSZ :: "int \<Rightarrow> posix_os \<Rightarrow> winsize option \<times> posix_os" where
  "ioctl_TIOCGWINSZ fd w =
     (case next_outcome w of
        (Some e, w') \<Rightarrow> (None, w'\<lparr>errno := e\<rparr>)
      | (None, w') \<Rightarrow> (Some (window w'), w'))"

subsection \<open>\<open>class BaseTerminal\<close>, POSIX branch\<close>

record BaseTerminal =
  orig_termios :: termios

text \<open>Lines 79 to 91 of the constructor: the raw attributes derived from the saved ones.\<close>

definition raw_termios :: "bool \<Rightarrow> termios \<Rightarrow> termios" where
  "raw_termios disable_ctrl_c orig =
     (let raw = orig;
          raw = raw\<lparr>c_iflag := c_iflag raw AND NOT (BRKINT OR ICRNL OR INPCK OR ISTRIP OR IXON)\<rparr>;
          raw = raw\<lparr>c_cflag := c_cflag raw OR CS8\<rparr>;
          raw = raw\<lparr>c_lflag := c_lflag raw AND NOT (ECHO OR ICANON OR IEXTEN)\<rparr>;
          raw = (if disable_ctrl_c then raw\<lparr>c_lflag := c_lflag raw AND NOT ISIG\<rparr> else raw);
          raw = raw\<lparr>c_cc := (c_cc raw)[VMIN := 0]\<rparr>;
          raw = raw\<lparr>c_cc := (c_cc raw)[VTIME := 0]\<rparr>
      in raw)"

text \<open>\<open>BaseTerminal(bool disable_ctrl_c = true)\<close>\<close>

definition BaseTerminal_ctor :: "bool \<Rightarrow> posix_os \<Rightarrow> (error + BaseTerminal) \<times> posix_os" where
  "BaseTerminal_ctor disable_ctrl_c w =
     (case tcgetattr STDIN_FILENO w of
        (None, w1) \<Rightarrow> (Inl (runtime_error ''tcgetattr() failed''), w1)
      | (Some orig, w1) \<Rightarrow>
          (case tcsetattr STDIN_FILENO TCSAFLUSH (raw_termios disable_ctrl_c orig) w1 of
             (r, w2) \<Rightarrow>
               if r = - 1 then (Inl (runtime_error ''tcsetattr() failed''), w2)
               else (Inr \<lparr>orig_termios = orig\<rparr>, w2)))"

text \<open>\<open>virtual ~BaseTerminal() noexcept(false)\<close>\<close>

definition BaseTerminal_dtor :: "BaseTerminal \<Rightarrow> posix_os \<Rightarrow> (error + unit) \<times> posix_os" where
  "BaseTerminal_dtor this w =
     (case tcsetattr STDIN_FILENO TCSAFLUSH (orig_termios this) w of
        (r, w1) \<Rightarrow>
          if r = - 1 then (Inl (runtime_error ''tcsetattr() failed in destructor''), w1)
          else (Inr (), w1))"

text \<open>
  \<open>bool read_raw(char* s) const\<close>: the argument \<open>s\<close> is the content of \<open>*s\<close> before the
  call, the result is the returned flag with the content of \<open>*s\<close> after it.
\<close>

definition read_raw :: "BaseTerminal \<Rightarrow> cchar \<Rightarrow> posix_os \<Rightarrow> (error + bool \<times> cchar) \<times> posix_os" where
  "read_raw this s w =
     (case read_fd STDIN_FILENO s w of
        ((nread, s'), w1) \<Rightarrow>
          if nread = - 1 \<and> errno w1 \<noteq> EAGAIN then (Inl (runtime_error ''read() failed''), w1)
          else (Inr (nread = 1, s'), w1))"

text \<open>
  \<open>void get_term_size(int& rows, int& cols) const\<close>: the result is \<open>(rows, cols)\<close>.
  The two fields are \<open>unsigned short\<close>, converted to \<open>int\<close>.
\<close>

definition get_term_size :: "BaseTerminal \<Rightarrow> posix_os \<Rightarrow> (error + int \<times> int) \<times> posix_os" where
  "get_term_size this w =
     (case ioctl_TIOCGWINSZ STDOUT_FILENO w of
        (None, w1) \<Rightarrow> (Inl (runtime_error ''ioctl() failed''), w1)
      | (Some ws, w1) \<Rightarrow>
          if ws_col ws = 0 then (Inl (runtime_error ''ioctl() failed''), w1)
          else (Inr (uint (ws_row ws), uint (ws_col ws)), w1))"

subsection \<open>A session's calls between construction and destruction\<close>

text \<open>
  The calls a client makes on a live object, in order. An exception leaves the scope of
  the object, so the calls after it are not made.
\<close>

datatype call = Call_read_raw cchar | Call_get_term_size

fun run_calls :: "BaseTerminal \<Rightarrow> call list \<Rightarrow> posix_os \<Rightarrow> (error + unit) \<times> posix_os" where
  "run_calls this [] w = (Inr (), w)"
| "run_calls this (Call_read_raw s # cs) w =
     (case read_raw this s w of
        (Inl e, w1) \<Rightarrow> (Inl e, w1)
      | (Inr r, w1) \<Rightarrow> run_calls this cs w1)"
| "run_calls this (Call_get_term_size # cs) w =
     (case get_term_size this w of
        (Inl e, w1) \<Rightarrow> (Inl e, w1)
      | (Inr r, w1) \<Rightarrow> run_calls this cs w1)"

section \<open>The Windows console interface (\<open>#ifdef _WIN32\<close> branch)\<close>

subsection \<open>Data of \<open>windows.h\<close>\<close>

type_synonym DWORD = "32 word"
type_synonym SHORT = "16 word"

datatype HANDLE = ConsoleOutput | ConsoleInput | INVALID_HANDLE_VALUE

datatype std_handle = STD_INPUT_HANDLE | STD_OUTPUT_HANDLE

record SMALL_RECT =
  Left :: SHORT
  Top :: SHORT
  Right :: SHORT
  Bottom :: SHORT

text \<open>Of \<open>CONSOLE_SCREEN_BUFFER_INFO\<close> the code reads \<open>srWindow\<close> only.\<close>

record CONSOLE_SCREEN_BUFFER_INFO =
  srWindow :: SMALL_RECT

text \<open>The console mode bits, with their values in \<open>consoleapi.h\<close>.\<close>

definition ENABLE_PROCESSED_INPUT :: DWORD where "ENABLE_PROCESSED_INPUT = 1"
definition ENABLE_LINE_INPUT :: DWORD where "ENABLE_LINE_INPUT = 2"
definition ENABLE_ECHO_INPUT :: DWORD where "ENABLE_ECHO_INPUT = 4"
definition ENABLE_VIRTUAL_TERMINAL_INPUT :: DWORD where "ENABLE_VIRTUAL_TERMINAL_INPUT = 512"
definition ENABLE_VIRTUAL_TERMINAL_PROCESSING :: DWORD where
  "ENABLE_VIRTUAL_TERMINAL_PROCESSING = 4"
definition DISABLE_NEWLINE_AUTO_RETURN :: DWORD where "DISABLE_NEWLINE_AUTO_RETURN = 8"

subsection \<open>The console as explicit state\<close>

text \<open>
  \<open>out_mode\<close> and \<open>in_mode\<close> are the modes of the screen buffer and of the input
  buffer. \<open>kbhit_script\<close> holds the answers of the coming \<open>kbhit()\<close> calls,
  \<open>stdin_bytes\<close> what \<open>ReadFile\<close> on the input handle can deliver, and \<open>api_script\<close>
  the schedule of failures of the other calls (\<open>True\<close>: the call fails).
\<close>

record console =
  out_mode :: DWORD
  in_mode :: DWORD
  kbhit_script :: "bool list"
  stdin_bytes :: "cchar list"
  screen :: CONSOLE_SCREEN_BUFFER_INFO
  api_script :: "bool list"

definition next_api :: "console \<Rightarrow> bool \<times> console" where
  "next_api c =
     (case api_script c of
        [] \<Rightarrow> (False, c)
      | f # fs \<Rightarrow> (f, c\<lparr>api_script := fs\<rparr>))"

definition GetStdHandle :: "std_handle \<Rightarrow> console \<Rightarrow> HANDLE \<times> console" where
  "GetStdHandle n c =
     (case next_api c of
        (True, c') \<Rightarrow> (INVALID_HANDLE_VALUE, c')
      | (False, c') \<Rightarrow>
          (case n of
             STD_OUTPUT_HANDLE \<Rightarrow> (ConsoleOutput, c')
           | STD_INPUT_HANDLE \<Rightarrow> (ConsoleInput, c')))"

text \<open>\<open>GetConsoleMode(h, &mode)\<close>: \<open>None\<close> stands for the return value \<open>FALSE\<close>.\<close>

definition GetConsoleMode :: "HANDLE \<Rightarrow> console \<Rightarrow> DWORD option \<times> console" where
  "GetConsoleMode h c =
     (case next_api c of
        (True, c') \<Rightarrow> (None, c')
      | (False, c') \<Rightarrow>
          (case h of
             ConsoleOutput \<Rightarrow> (Some (out_mode c'), c')
           | ConsoleInput \<Rightarrow> (Some (in_mode c'), c')
           | INVALID_HANDLE_VALUE \<Rightarrow> (None, c')))"

definition SetConsoleMode :: "HANDLE \<Rightarrow> DWORD \<Rightarrow> console \<Rightarrow> bool \<times> console" where
  "SetConsoleMode h m c =
     (case next_api c of
        (True, c') \<Rightarrow> (False, c')
      | (False, c') \<Rightarrow>
          (case h of
             ConsoleOutput \<Rightarrow> (True, c'\<lparr>out_mode := m\<rparr>)
           | ConsoleInput \<Rightarrow> (True, c'\<lparr>in_mode := m\<rparr>)
           | INVALID_HANDLE_VALUE \<Rightarrow> (False, c')))"

definition kbhit :: "console \<Rightarrow> bool \<times> console" where
  "kbhit c =
     (case kbhit_script c of
        [] \<Rightarrow> (False, c)
      | k # ks \<Rightarrow> (k, c\<lparr>kbhit_script := ks\<rparr>))"

text \<open>
  \<open>ReadFile(h, buf, 1, &nread, nullptr)\<close>: the result is the returned flag, the content
  of \<open>buf[0]\<close> after the call and \<open>nread\<close>. As with \<open>read\<close>, the call is
  modelled for the input mode the constructor installs, where it does not wait for a line.
\<close>

definition ReadFile :: "HANDLE \<Rightarrow> cchar \<Rightarrow> console \<Rightarrow> (bool \<times> cchar \<times> DWORD) \<times> console" where
  "ReadFile h buf c =
     (case next_api c of
        (True, c') \<Rightarrow> ((False, buf, 0), c')
      | (False, c') \<Rightarrow>
          (case h of
             ConsoleInput \<Rightarrow>
               (case stdin_bytes c' of
                  [] \<Rightarrow> ((True, buf, 0), c')
                | b # bs \<Rightarrow> ((True, b, 1), c'\<lparr>stdin_bytes := bs\<rparr>))
           | ConsoleOutput \<Rightarrow> ((False, buf, 0), c')
           | INVALID_HANDLE_VALUE \<Rightarrow> ((False, buf, 0), c')))"

text \<open>
  \<open>GetConsoleScreenBufferInfo(h, &inf)\<close>: the result is the returned flag and the
  content of \<open>inf\<close> after the call, which a failing call leaves as it was.
\<close>

definition GetConsoleScreenBufferInfo ::
  "HANDLE \<Rightarrow> CONSOLE_SCREEN_BUFFER_INFO \<Rightarrow> console \<Rightarrow> (bool \<times> CONSOLE_SCREEN_BUFFER_INFO) \<times> console" where
  "GetConsoleScreenBufferInfo h csbi c =
     (case next_api c of
        (True, c') \<Rightarrow> ((False, csbi), c')
      | (False, c') \<Rightarrow>
          (case h of
             ConsoleOutput \<Rightarrow> ((True, screen c'), c')
           | ConsoleInput \<Rightarrow> ((False, csbi), c')
           | INVALID_HANDLE_VALUE \<Rightarrow> ((False, csbi), c')))"

subsection \<open>\<open>class BaseTerminal\<close>, Windows branch\<close>

record BaseTerminal_win32 =
  hout :: HANDLE
  hin :: HANDLE
  dwOriginalOutMode :: DWORD
  dwOriginalInMode :: DWORD

text \<open>\<open>BaseTerminal(bool disable_ctrl_c = true)\<close>; this branch never reads its argument.\<close>

definition BaseTerminal_win32_ctor ::
  "bool \<Rightarrow> console \<Rightarrow> (error + BaseTerminal_win32) \<times> console" where
  "BaseTerminal_win32_ctor disable_ctrl_c c =
     (case GetStdHandle STD_OUTPUT_HANDLE c of (ho, c1) \<Rightarrow>
      if ho = INVALID_HANDLE_VALUE
      then (Inl (runtime_error ''GetStdHandle(STD_OUTPUT_HANDLE) failed''), c1)
      else
     (case GetStdHandle STD_INPUT_HANDLE c1 of (hi, c2) \<Rightarrow>
      if hi = INVALID_HANDLE_VALUE
      then (Inl (runtime_error ''GetStdHandle(STD_INPUT_HANDLE) failed''), c2)
      else
     (case GetConsoleMode ho c2 of
        (None, c3) \<Rightarrow> (Inl (runtime_error ''GetConsoleMode() failed''), c3)
      | (Some origOut, c3) \<Rightarrow>
     (case GetConsoleMode hi c3 of
        (None, c4) \<Rightarrow> (Inl (runtime_error ''GetConsoleMode() failed''), c4)
      | (Some origIn, c4) \<Rightarrow>
     (let dwRequestedOutModes = ENABLE_VIRTUAL_TERMINAL_PROCESSING OR DISABLE_NEWLINE_AUTO_RETURN;
          dwRequestedInModes = ENABLE_VIRTUAL_TERMINAL_INPUT;
          dwOutMode = origOut OR dwRequestedOutModes
      in
      case SetConsoleMode ho dwOutMode c4 of (ok, c5) \<Rightarrow>
      if ok then
        (let dwInMode = origIn OR dwRequestedInModes;
             dwInMode = dwInMode AND NOT (ENABLE_LINE_INPUT OR ENABLE_ECHO_INPUT)
         in
         case SetConsoleMode hi dwInMode c5 of (ok', c6) \<Rightarrow>
         if ok' then
           (Inr \<lparr>hout = ho, hin = hi, dwOriginalOutMode = origOut, dwOriginalInMode = origIn\<rparr>,
            c6)
         else (Inl (runtime_error ''SetConsoleMode() failed''), c6))
      else (Inl (runtime_error ''SetConsoleMode() failed''), c5))))))"

text \<open>\<open>virtual ~BaseTerminal() noexcept(false)\<close>\<close>

definition BaseTerminal_win32_dtor ::
  "BaseTerminal_win32 \<Rightarrow> console \<Rightarrow> (error + unit) \<times> console" where
  "BaseTerminal_win32_dtor this c =
     (case SetConsoleMode (hout this) (dwOriginalOutMode this) c of (ok, c1) \<Rightarrow>
      if ok then
        (case SetConsoleMode (hin this) (dwOriginalInMode this) c1 of (ok', c2) \<Rightarrow>
         if ok' then (Inr (), c2)
         else (Inl (runtime_error ''SetConsoleMode() failed in destructor''), c2))
      else (Inl (runtime_error ''SetConsoleMode() failed in destructor''), c1))"

text \<open>
  \<open>bool read_raw(char* s) const\<close>: \<open>buf\<close> is the content of the local \<open>char buf[1]\<close>,
  which the code does not initialise; \<open>s\<close> is the content of \<open>*s\<close> before the call.
\<close>

definition read_raw_win32 ::
  "BaseTerminal_win32 \<Rightarrow> cchar \<Rightarrow> cchar \<Rightarrow> console \<Rightarrow> (error + bool \<times> cchar) \<times> console" where
  "read_raw_win32 this buf s c =
     (case kbhit c of (hit, c1) \<Rightarrow>
      if hit then
        (case ReadFile (hin this) buf c1 of ((ok, buf', nread), c2) \<Rightarrow>
         if ok then
           (if nread = 1 then (Inr (True, buf'), c2)
            else (Inl (runtime_error ''kbhit() and ReadFile() inconsistent''), c2))
         else (Inl (runtime_error ''ReadFile() failed''), c2))
      else (Inr (False, s), c1))"

text \<open>
  \<open>void get_term_size(int& rows, int& cols) const\<close>: \<open>csbi\<close> is the content of the
  local \<open>CONSOLE_SCREEN_BUFFER_INFO inf\<close>, which the code does not initialise. The flag that
  \<open>GetConsoleScreenBufferInfo\<close> returns is not looked at. The result is
  \<open>(rows, cols)\<close>; the \<open>SHORT\<close> fields are promoted to \<open>int\<close> before the arithmetic.
\<close>

definition get_term_size_win32 ::
  "BaseTerminal_win32 \<Rightarrow> CONSOLE_SCREEN_BUFFER_INFO \<Rightarrow> console \<Rightarrow> (int \<times> int) \<times> console" where
  "get_term_size_win32 this csbi c =
     (case GetConsoleScreenBufferInfo (hout this) csbi c of ((ok, csbi'), c1) \<Rightarrow>
      (let cols = sint (Right (srWindow csbi')) - sint (Left (srWindow csbi')) + 1;
           rows = sint (Bottom (srWindow csbi')) - sint (Top (srWindow csbi')) + 1
       in ((rows, cols), c1)))"

datatype call_win32 =
  Call_read_raw_win32 cchar cchar | Call_get_term_size_win32 CONSOLE_SCREEN_BUFFER_INFO

fun run_calls_win32 ::
  "BaseTerminal_win32 \<Rightarrow> call_win32 list \<Rightarrow> console \<Rightarrow> (error + unit) \<times> console" where
  "run_calls_win32 this [] c = (Inr (), c)"
| "run_calls_win32 this (Call_read_raw_win32 buf s # cs) c =
     (case read_raw_win32 this buf s c of
        (Inl e, c1) \<Rightarrow> (Inl e, c1)
      | (Inr r, c1) \<Rightarrow> run_calls_win32 this cs c1)"
| "run_calls_win32 this (Call_get_term_size_win32 csbi # cs) c =
     (case get_term_size_win32 this csbi c of
        (r, c1) \<Rightarrow> run_calls_win32 this cs c1)"

section \<open>Concrete states for the examples\<close>

text \<open>
  A Linux terminal in its usual line mode (\<open>ICRNL | IXON\<close>, \<open>OPOST | ONLCR\<close>,
  \<open>ISIG | ICANON | ECHO | ECHOE | ECHOK | ECHOCTL | ECHOKE | IEXTEN\<close>), 24 rows by
  80 columns, with one byte typed ahead.
\<close>

definition cooked :: termios where
  "cooked =
     \<lparr>c_iflag = 1280, c_oflag = 5, c_cflag = 191, c_lflag = 35387,
      c_cc = [3, 28, 127, 21, 4, 0, 1, 0, 17, 19, 26, 0, 18, 15, 23, 22,
              0, 0, 0, 0, 0, 0, 0, 0, 0, 0, 0, 0, 0, 0, 0, 0]\<rparr>"

definition os0 :: posix_os where
  "os0 =
     \<lparr>tty = cooked, inq = [97],
      window = \<lparr>ws_row = 24, ws_col = 80, ws_xpixel = 0, ws_ypixel = 0\<rparr>,
      errno = 0, script = []\<rparr>"

definition this0 :: BaseTerminal where
  "this0 = \<lparr>orig_termios = cooked\<rparr>"

text \<open>The terminal while the object \<open>this0\<close>, constructed with \<open>disable_ctrl_c = true\<close>, is alive.\<close>

definition os_raw :: posix_os where
  "os_raw = os0\<lparr>tty := raw_termios True cooked, inq := []\<rparr>"

text \<open>
  A Windows console in its usual mode: output \<open>ENABLE_PROCESSED_OUTPUT |
  ENABLE_WRAP_AT_EOL_OUTPUT\<close>, input \<open>0x1F7\<close> (with \<open>ENABLE_PROCESSED_INPUT\<close>,
  \<open>ENABLE_LINE_INPUT\<close> and \<open>ENABLE_ECHO_INPUT\<close> set), a window of 24 rows by 80 columns.
\<close>

definition con0 :: console where
  "con0 =
     \<lparr>out_mode = 3, in_mode = 503, kbhit_script = [], stdin_bytes = [],
      screen = \<lparr>srWindow = \<lparr>Left = 0, Top = 0, Right = 79, Bottom = 23\<rparr>\<rparr>,
      api_script = []\<rparr>"

definition this0_win32 :: BaseTerminal_win32 where
  "this0_win32 =
     \<lparr>hout = ConsoleOutput, hin = ConsoleInput, dwOriginalOutMode = 3, dwOriginalInMode = 503\<rparr>"

definition con_raw :: console where
  "con_raw = con0\<lparr>out_mode := 15, in_mode := 1009\<rparr>"

section \<open>Properties of the member functions\<close>

lemmas termios_macros =
  BRKINT_def ICRNL_def INPCK_def ISTRIP_def IXON_def CS8_def ECHO_def ICANON_def
  IEXTEN_def ISIG_def VTIME_def VMIN_def STDIN_FILENO_def STDOUT_FILENO_def EAGAIN_def

lemmas console_macros =
  ENABLE_PROCESSED_INPUT_def ENABLE_LINE_INPUT_def ENABLE_ECHO_INPUT_def
  ENABLE_VIRTUAL_TERMINAL_INPUT_def ENABLE_VIRTUAL_TERMINAL_PROCESSING_def
  DISABLE_NEWLINE_AUTO_RETURN_def

lemmas example_states =
  cooked_def os0_def this0_def os_raw_def con0_def this0_win32_def con_raw_def

lemmas posix_calls = next_outcome_def tcgetattr_def tcsetattr_def read_fd_def ioctl_TIOCGWINSZ_def
lemmas win32_calls = next_api_def GetStdHandle_def GetConsoleMode_def SetConsoleMode_def kbhit_def
  ReadFile_def GetConsoleScreenBufferInfo_def

subsection \<open>The POSIX branch: effect on the terminal attributes\<close>

lemma read_raw_tty: "read_raw t s w = (r, w') \<Longrightarrow> tty w' = tty w"
  by (auto simp: read_raw_def posix_calls split: prod.splits option.splits list.splits if_splits)

lemma get_term_size_tty: "get_term_size t w = (r, w') \<Longrightarrow> tty w' = tty w"
  by (auto simp: get_term_size_def posix_calls split: prod.splits option.splits list.splits if_splits)

lemma run_calls_tty: "run_calls t cs w = (r, w') \<Longrightarrow> tty w' = tty w"
proof (induction t cs w rule: run_calls.induct)
  case (1 this w)
  then show ?case by simp
next
  case (2 this s cs w)
  then show ?case
    by (auto split: prod.splits sum.splits dest: read_raw_tty)
next
  case (3 this cs w)
  then show ?case
    by (auto split: prod.splits sum.splits dest: get_term_size_tty)
qed

lemma ctor_Inr:
  "BaseTerminal_ctor d w = (Inr t, w') \<Longrightarrow>
     orig_termios t = tty w \<and> tty w' = raw_termios d (tty w) \<and> inq w' = []"
  by (auto simp: BaseTerminal_ctor_def posix_calls split: prod.splits option.splits list.splits if_splits)

lemma ctor_Inl:
  "BaseTerminal_ctor d w = (Inl e, w') \<Longrightarrow>
     tty w' = tty w \<and> inq w' = inq w \<and>
     (e = runtime_error ''tcgetattr() failed'' \<or> e = runtime_error ''tcsetattr() failed'')"
  by (auto simp: BaseTerminal_ctor_def posix_calls split: prod.splits option.splits list.splits if_splits)

lemma dtor_Inr: "BaseTerminal_dtor t w = (Inr u, w') \<Longrightarrow> tty w' = orig_termios t"
  by (auto simp: BaseTerminal_dtor_def posix_calls split: prod.splits option.splits list.splits if_splits)

lemma dtor_Inl:
  "BaseTerminal_dtor t w = (Inl e, w') \<Longrightarrow>
     tty w' = tty w \<and> e = runtime_error ''tcsetattr() failed in destructor''"
  by (auto simp: BaseTerminal_dtor_def posix_calls split: prod.splits option.splits list.splits if_splits)

subsection \<open>The Windows branch leaves the console modes to the constructor and destructor\<close>

lemma kbhit_modes:
  "kbhit c = (k, c') \<Longrightarrow> out_mode c' = out_mode c \<and> in_mode c' = in_mode c"
  by (auto simp: kbhit_def split: list.splits)

lemma ReadFile_modes:
  "ReadFile h b c = (r, c') \<Longrightarrow> out_mode c' = out_mode c \<and> in_mode c' = in_mode c"
  by (auto simp: ReadFile_def next_api_def split: list.splits bool.splits HANDLE.splits)

lemma GetConsoleScreenBufferInfo_modes:
  "GetConsoleScreenBufferInfo h i c = (r, c') \<Longrightarrow>
     out_mode c' = out_mode c \<and> in_mode c' = in_mode c"
  by (auto simp: GetConsoleScreenBufferInfo_def next_api_def
      split: list.splits bool.splits HANDLE.splits)

lemma read_raw_win32_modes:
  "read_raw_win32 t b s c = (r, c') \<Longrightarrow> out_mode c' = out_mode c \<and> in_mode c' = in_mode c"
  unfolding read_raw_win32_def
  by (auto split: prod.splits if_splits dest!: kbhit_modes ReadFile_modes)

lemma get_term_size_win32_modes:
  "get_term_size_win32 t i c = (r, c') \<Longrightarrow> out_mode c' = out_mode c \<and> in_mode c' = in_mode c"
  unfolding get_term_size_win32_def Let_def
  by (auto split: prod.splits dest!: GetConsoleScreenBufferInfo_modes)

lemma run_calls_win32_modes:
  "run_calls_win32 t cs c = (r, c') \<Longrightarrow> out_mode c' = out_mode c \<and> in_mode c' = in_mode c"
proof (induction t cs c rule: run_calls_win32.induct)
  case (1 this c)
  then show ?case by simp
next
  case (2 this buf s cs c)
  then show ?case
    by (auto split: prod.splits sum.splits dest: read_raw_win32_modes)
next
  case (3 this csbi cs c)
  then show ?case
    by (auto split: prod.splits sum.splits dest: get_term_size_win32_modes)
qed



lemma GetStdHandle_D:
  "GetStdHandle n c = (h, c') \<Longrightarrow>
     out_mode c' = out_mode c \<and> in_mode c' = in_mode c \<and>
     (h = INVALID_HANDLE_VALUE \<or>
      h = (case n of STD_OUTPUT_HANDLE \<Rightarrow> ConsoleOutput | STD_INPUT_HANDLE \<Rightarrow> ConsoleInput))"
  by (auto simp: win32_calls split: list.splits bool.splits std_handle.splits)

lemma GetConsoleMode_D:
  "GetConsoleMode h c = (r, c') \<Longrightarrow>
     out_mode c' = out_mode c \<and> in_mode c' = in_mode c \<and>
     (r = None \<or> h = ConsoleOutput \<and> r = Some (out_mode c) \<or>
      h = ConsoleInput \<and> r = Some (in_mode c))"
  by (auto simp: win32_calls split: list.splits bool.splits HANDLE.splits)

lemma SetConsoleMode_D:
  "SetConsoleMode h m c = (ok, c') \<Longrightarrow>
     (ok \<and> h = ConsoleOutput \<and> out_mode c' = m \<and> in_mode c' = in_mode c) \<or>
     (ok \<and> h = ConsoleInput \<and> in_mode c' = m \<and> out_mode c' = out_mode c) \<or>
     (ok = False \<and> out_mode c' = out_mode c \<and> in_mode c' = in_mode c)"
  by (auto simp: win32_calls split: list.splits bool.splits HANDLE.splits)

lemma win32_ctor_cases:
  obtains
    (no_hout) c1 where
      "GetStdHandle STD_OUTPUT_HANDLE c = (INVALID_HANDLE_VALUE, c1)"
      "BaseTerminal_win32_ctor d c =
         (Inl (runtime_error ''GetStdHandle(STD_OUTPUT_HANDLE) failed''), c1)"
  | (no_hin) c1 c2 where
      "GetStdHandle STD_OUTPUT_HANDLE c = (ConsoleOutput, c1)"
      "GetStdHandle STD_INPUT_HANDLE c1 = (INVALID_HANDLE_VALUE, c2)"
      "BaseTerminal_win32_ctor d c =
         (Inl (runtime_error ''GetStdHandle(STD_INPUT_HANDLE) failed''), c2)"
  | (no_out_mode) c1 c2 c3 where
      "GetStdHandle STD_OUTPUT_HANDLE c = (ConsoleOutput, c1)"
      "GetStdHandle STD_INPUT_HANDLE c1 = (ConsoleInput, c2)"
      "GetConsoleMode ConsoleOutput c2 = (None, c3)"
      "BaseTerminal_win32_ctor d c = (Inl (runtime_error ''GetConsoleMode() failed''), c3)"
  | (no_in_mode) c1 c2 c3 c4 where
      "GetStdHandle STD_OUTPUT_HANDLE c = (ConsoleOutput, c1)"
      "GetStdHandle STD_INPUT_HANDLE c1 = (ConsoleInput, c2)"
      "GetConsoleMode ConsoleOutput c2 = (Some (out_mode c), c3)"
      "GetConsoleMode ConsoleInput c3 = (None, c4)"
      "BaseTerminal_win32_ctor d c = (Inl (runtime_error ''GetConsoleMode() failed''), c4)"
  | (modes_read) c1 c2 c3 c4 ok c5 where
      "GetStdHandle STD_OUTPUT_HANDLE c = (ConsoleOutput, c1)"
      "GetStdHandle STD_INPUT_HANDLE c1 = (ConsoleInput, c2)"
      "GetConsoleMode ConsoleOutput c2 = (Some (out_mode c), c3)"
      "GetConsoleMode ConsoleInput c3 = (Some (in_mode c), c4)"
      "out_mode c4 = out_mode c" "in_mode c4 = in_mode c"
      "SetConsoleMode ConsoleOutput
         (out_mode c OR (ENABLE_VIRTUAL_TERMINAL_PROCESSING OR DISABLE_NEWLINE_AUTO_RETURN)) c4 =
         (ok, c5)"
      "BaseTerminal_win32_ctor d c =
         (if ok then
            (case SetConsoleMode ConsoleInput
                ((in_mode c OR ENABLE_VIRTUAL_TERMINAL_INPUT) AND
                 NOT (ENABLE_LINE_INPUT OR ENABLE_ECHO_INPUT)) c5 of
               (ok', c6) \<Rightarrow>
                 if ok' then
                   (Inr \<lparr>hout = ConsoleOutput, hin = ConsoleInput,
                          dwOriginalOutMode = out_mode c, dwOriginalInMode = in_mode c\<rparr>, c6)
                 else (Inl (runtime_error ''SetConsoleMode() failed''), c6))
          else (Inl (runtime_error ''SetConsoleMode() failed''), c5))"
proof -
  obtain ho c1 where s1: "GetStdHandle STD_OUTPUT_HANDLE c = (ho, c1)"
    by (cases "GetStdHandle STD_OUTPUT_HANDLE c")
  obtain hi c2 where s2: "GetStdHandle STD_INPUT_HANDLE c1 = (hi, c2)"
    by (cases "GetStdHandle STD_INPUT_HANDLE c1")
  obtain m1 c3 where s3: "GetConsoleMode ho c2 = (m1, c3)"
    by (cases "GetConsoleMode ho c2")
  obtain m2 c4 where s4: "GetConsoleMode hi c3 = (m2, c4)"
    by (cases "GetConsoleMode hi c3")
  note d1 = GetStdHandle_D [OF s1] and d2 = GetStdHandle_D [OF s2]
    and d3 = GetConsoleMode_D [OF s3] and d4 = GetConsoleMode_D [OF s4]
  show thesis
  proof (cases "ho = INVALID_HANDLE_VALUE")
    case True
    with s1 show thesis
      by (intro no_hout [of c1]) (simp_all add: BaseTerminal_win32_ctor_def)
  next
    case ho: False
    with d1 have ho': "ho = ConsoleOutput" by simp
    show thesis
    proof (cases "hi = INVALID_HANDLE_VALUE")
      case True
      with s1 s2 ho' show thesis
        by (intro no_hin [of c1 c2]) (simp_all add: BaseTerminal_win32_ctor_def)
    next
      case hi: False
      with d2 have hi': "hi = ConsoleInput" by simp
      show thesis
      proof (cases m1)
        case None
        with s1 s2 s3 ho' hi' show thesis
          by (intro no_out_mode [of c1 c2 c3]) (simp_all add: BaseTerminal_win32_ctor_def)
      next
        case (Some a)
        with d1 d2 d3 ho' have m1: "m1 = Some (out_mode c)" by simp
        show thesis
        proof (cases m2)
          case None
          with s1 s2 s3 s4 ho' hi' m1 show thesis
            by (intro no_in_mode [of c1 c2 c3 c4]) (simp_all add: BaseTerminal_win32_ctor_def)
        next
          case (Some b)
          with d1 d2 d3 d4 hi' have m2: "m2 = Some (in_mode c)" by simp
          obtain ok c5 where s5: "SetConsoleMode ConsoleOutput
             (out_mode c OR (ENABLE_VIRTUAL_TERMINAL_PROCESSING OR DISABLE_NEWLINE_AUTO_RETURN)) c4 =
             (ok, c5)"
            by (cases "SetConsoleMode ConsoleOutput
             (out_mode c OR (ENABLE_VIRTUAL_TERMINAL_PROCESSING OR DISABLE_NEWLINE_AUTO_RETURN)) c4")
          from d1 d2 d3 d4 have "out_mode c4 = out_mode c" "in_mode c4 = in_mode c"
            by simp_all
          with s1 s2 s3 s4 s5 ho' hi' m1 m2 show thesis
            by (intro modes_read [of c1 c2 c3 c4 ok c5])
              (simp_all add: BaseTerminal_win32_ctor_def Let_def)
        qed
      qed
    qed
  qed
qed

lemma win32_ctor_Inr:
  assumes "BaseTerminal_win32_ctor d c = (Inr t, c')"
  shows "hout t = ConsoleOutput \<and> hin t = ConsoleInput \<and>
     dwOriginalOutMode t = out_mode c \<and> dwOriginalInMode t = in_mode c \<and>
     out_mode c' = out_mode c OR (ENABLE_VIRTUAL_TERMINAL_PROCESSING OR DISABLE_NEWLINE_AUTO_RETURN) \<and>
     in_mode c' = (in_mode c OR ENABLE_VIRTUAL_TERMINAL_INPUT) AND NOT (ENABLE_LINE_INPUT OR ENABLE_ECHO_INPUT)"
proof (cases d c rule: win32_ctor_cases)
  case (modes_read c1 c2 c3 c4 ok c5)
  from assms modes_read(8) have ok: ok
    by (simp split: if_splits)
  obtain ok' c6 where s6: "SetConsoleMode ConsoleInput
      ((in_mode c OR ENABLE_VIRTUAL_TERMINAL_INPUT) AND
       NOT (ENABLE_LINE_INPUT OR ENABLE_ECHO_INPUT)) c5 = (ok', c6)"
    by (cases "SetConsoleMode ConsoleInput
      ((in_mode c OR ENABLE_VIRTUAL_TERMINAL_INPUT) AND
       NOT (ENABLE_LINE_INPUT OR ENABLE_ECHO_INPUT)) c5")
  from assms modes_read(8) ok s6 have r: "ok'" "c' = c6"
    "t = \<lparr>hout = ConsoleOutput, hin = ConsoleInput,
          dwOriginalOutMode = out_mode c, dwOriginalInMode = in_mode c\<rparr>"
    by (simp_all split: if_splits)
  from SetConsoleMode_D [OF modes_read(7)] SetConsoleMode_D [OF s6] ok r modes_read(5,6)
  show ?thesis by simp
qed (use assms in simp_all)

lemma win32_ctor_Inl:
  assumes "BaseTerminal_win32_ctor d c = (Inl e, c')"
  shows "in_mode c' = in_mode c \<and>
     (out_mode c' = out_mode c \<or>
      e = runtime_error ''SetConsoleMode() failed'' \<and>
      out_mode c' = out_mode c OR (ENABLE_VIRTUAL_TERMINAL_PROCESSING OR DISABLE_NEWLINE_AUTO_RETURN))"
proof (cases d c rule: win32_ctor_cases)
  case (no_hout c1)
  with assms GetStdHandle_D [OF no_hout(1)] show ?thesis by simp
next
  case (no_hin c1 c2)
  with assms GetStdHandle_D [OF no_hin(1)] GetStdHandle_D [OF no_hin(2)] show ?thesis by simp
next
  case (no_out_mode c1 c2 c3)
  with assms GetStdHandle_D [OF no_out_mode(1)] GetStdHandle_D [OF no_out_mode(2)]
    GetConsoleMode_D [OF no_out_mode(3)]
  show ?thesis by simp
next
  case (no_in_mode c1 c2 c3 c4)
  with assms GetStdHandle_D [OF no_in_mode(1)] GetStdHandle_D [OF no_in_mode(2)]
    GetConsoleMode_D [OF no_in_mode(3)] GetConsoleMode_D [OF no_in_mode(4)]
  show ?thesis by simp
next
  case (modes_read c1 c2 c3 c4 ok c5)
  obtain ok' c6 where s6: "SetConsoleMode ConsoleInput
      ((in_mode c OR ENABLE_VIRTUAL_TERMINAL_INPUT) AND
       NOT (ENABLE_LINE_INPUT OR ENABLE_ECHO_INPUT)) c5 = (ok', c6)"
    by (cases "SetConsoleMode ConsoleInput
      ((in_mode c OR ENABLE_VIRTUAL_TERMINAL_INPUT) AND
       NOT (ENABLE_LINE_INPUT OR ENABLE_ECHO_INPUT)) c5")
  show ?thesis
  proof (cases ok)
    case False
    with assms modes_read(8) have "c' = c5" by simp
    with SetConsoleMode_D [OF modes_read(7)] False modes_read(5,6) show ?thesis by simp
  next
    case True
    with assms modes_read(8) s6 have "ok' = False" "c' = c6"
      "e = runtime_error ''SetConsoleMode() failed''"
      by (simp_all split: if_splits)
    with SetConsoleMode_D [OF modes_read(7)] SetConsoleMode_D [OF s6] True modes_read(5,6)
    show ?thesis by simp
  qed
qed

lemma win32_dtor_Inr:
  "BaseTerminal_win32_dtor t c = (Inr u, c') \<Longrightarrow> hout t = ConsoleOutput \<Longrightarrow> hin t = ConsoleInput \<Longrightarrow>
     out_mode c' = dwOriginalOutMode t \<and> in_mode c' = dwOriginalInMode t"
  unfolding BaseTerminal_win32_dtor_def
  by (auto split: prod.splits if_splits dest!: SetConsoleMode_D)

lemma win32_dtor_Inl:
  "BaseTerminal_win32_dtor t c = (Inl e, c') \<Longrightarrow>
     e = runtime_error ''SetConsoleMode() failed in destructor''"
  unfolding BaseTerminal_win32_dtor_def
  by (auto split: prod.splits if_splits)

subsection \<open>The raw attributes\<close>

lemma raw_termios_c_oflag: "c_oflag (raw_termios d t) = c_oflag t"
  by (simp add: raw_termios_def Let_def)

lemma raw_termios_ISIG_cleared: "c_lflag (raw_termios True t) AND ISIG = 0"
  by (simp add: raw_termios_def Let_def and.assoc termios_macros)

lemma raw_termios_ISIG_kept: "c_lflag (raw_termios False t) AND ISIG = c_lflag t AND ISIG"
  by (simp add: raw_termios_def Let_def and.assoc termios_macros)

lemma raw_termios_no_echo_no_canon: "c_lflag (raw_termios d t) AND (ECHO OR ICANON OR IEXTEN) = 0"
  by (simp add: raw_termios_def Let_def and.assoc termios_macros)

lemma or_and_not_mask: "(x OR m) AND NOT m = x AND NOT (m :: 'a :: len word)"
  by (auto simp: bit_eq_iff bit_simps)

lemma raw_termios_eq:
  "raw_termios d t =
     t\<lparr>c_iflag := c_iflag t AND NOT (BRKINT OR ICRNL OR INPCK OR ISTRIP OR IXON),
       c_cflag := c_cflag t OR CS8,
       c_lflag :=
         (if d then (c_lflag t AND NOT (ECHO OR ICANON OR IEXTEN)) AND NOT ISIG
          else c_lflag t AND NOT (ECHO OR ICANON OR IEXTEN)),
       c_cc := (c_cc t)[VMIN := 0, VTIME := 0]\<rparr>"
  by (simp add: raw_termios_def Let_def)

lemma raw_termios_c_cc_frame:
  "length (c_cc (raw_termios d t)) = length (c_cc t) \<and>
   (i \<noteq> VMIN \<and> i \<noteq> VTIME \<longrightarrow> c_cc (raw_termios d t) ! i = c_cc t ! i)"
  by (simp add: raw_termios_eq)

lemma raw_termios_flags_frame:
  "c_iflag (raw_termios d t) AND NOT (BRKINT OR ICRNL OR INPCK OR ISTRIP OR IXON) =
     c_iflag t AND NOT (BRKINT OR ICRNL OR INPCK OR ISTRIP OR IXON) \<and>
   c_cflag (raw_termios d t) AND NOT CS8 = c_cflag t AND NOT CS8 \<and>
   c_lflag (raw_termios d t) AND NOT ((ECHO OR ICANON OR IEXTEN) OR ISIG) =
     c_lflag t AND NOT ((ECHO OR ICANON OR IEXTEN) OR ISIG)"
  by (cases d) (auto simp: raw_termios_eq bit_eq_iff bit_simps)

subsection \<open>The size query and the destructor\<close>

lemma dtor_window: "BaseTerminal_dtor t w = (r, w1) \<Longrightarrow> window w1 = window w"
  by (auto simp: BaseTerminal_dtor_def tcsetattr_def next_outcome_def
      split: prod.splits option.splits list.splits if_splits)

lemma SetConsoleMode_screen: "SetConsoleMode h m c = (ok, c1) \<Longrightarrow> screen c1 = screen c"
  by (auto simp: SetConsoleMode_def next_api_def split: list.splits bool.splits HANDLE.splits)

lemma win32_dtor_screen: "BaseTerminal_win32_dtor t c = (r, c1) \<Longrightarrow> screen c1 = screen c"
  unfolding BaseTerminal_win32_dtor_def
  by (auto split: prod.splits if_splits dest!: SetConsoleMode_screen)

lemma get_term_size_ok:
  "fst (next_outcome w) = None \<Longrightarrow> ws_col (window w) \<noteq> 0 \<Longrightarrow>
     fst (get_term_size t w) = Inr (uint (ws_row (window w)), uint (ws_col (window w)))"
  by (auto simp: get_term_size_def ioctl_TIOCGWINSZ_def next_outcome_def
      split: prod.splits option.splits list.splits)

lemma get_term_size_throws:
  "(\<exists>x. fst (next_outcome w) = Some x) \<or> ws_col (window w) = 0 \<Longrightarrow>
     fst (get_term_size t w) = Inl (runtime_error ''ioctl() failed'')"
  by (auto simp: get_term_size_def ioctl_TIOCGWINSZ_def next_outcome_def
      split: prod.splits option.splits list.splits)

lemma get_term_size_win32_ok:
  "hout t = ConsoleOutput \<Longrightarrow> fst (next_api c) = False \<Longrightarrow>
     fst (get_term_size_win32 t csbi c) =
       (sint (Bottom (srWindow (screen c))) - sint (Top (srWindow (screen c))) + 1,
        sint (Right (srWindow (screen c))) - sint (Left (srWindow (screen c))) + 1)"
  by (auto simp: get_term_size_win32_def GetConsoleScreenBufferInfo_def next_api_def Let_def
      split: prod.splits list.splits bool.splits)

subsection \<open>Evaluation on concrete states\<close>

lemmas posix_eval = BaseTerminal_ctor_def BaseTerminal_dtor_def read_raw_def get_term_size_def
  raw_termios_def posix_calls termios_macros Let_def

lemmas win32_eval = BaseTerminal_win32_ctor_def BaseTerminal_win32_dtor_def read_raw_win32_def
  get_term_size_win32_def win32_calls console_macros Let_def

subsection \<open>A failing call makes the Windows constructor throw\<close>

lemma win32_ctor_failure_throws:
  assumes "n < 6" and "api_script c = replicate n False @ True # fs"
  shows "\<exists>e. fst (BaseTerminal_win32_ctor d c) = Inl e"
proof -
  from assms(1) consider "n = 0" | "n = 1" | "n = 2" | "n = 3" | "n = 4" | "n = 5"
    by linarith
  then show ?thesis
  proof cases
    case 1
    with assms(2) show ?thesis by (simp add: win32_eval)
  next
    case 2
    with assms(2) show ?thesis by (simp add: win32_eval)
  next
    case 3
    with assms(2) show ?thesis by (simp add: win32_eval numeral_2_eq_2)
  next
    case 4
    with assms(2) show ?thesis by (simp add: win32_eval numeral_3_eq_3)
  next
    case 5
    with assms(2) have "api_script c = [False, False, False, False] @ True # fs"
      by (simp add: eval_nat_numeral)
    then show ?thesis by (simp add: win32_eval)
  next
    case 6
    with assms(2) have "api_script c = [False, False, False, False, False] @ True # fs"
      by (simp add: eval_nat_numeral)
    then show ?thesis by (simp add: win32_eval)
  qed
qed

section \<open>The claims of the specification\<close>

subsection \<open>Restoration\<close>

text \<open>
  Claim C1 (round-trip restoration). Take any object that was constructed, any calls of
  \<open>read_raw\<close> and \<open>get_term_size\<close> made on it, whether or not one of them threw, and
  a destructor that returned. Then the terminal has the configuration it had just before
  the constructor ran, which is also the configuration the object saved: on the POSIX
  branch the whole \<open>termios\<close> structure (echo, canonical mode, signal generation,
  \<open>VMIN\<close> and \<open>VTIME\<close>), on the Windows branch both console modes. A destructor that
  throws instead is the subject of claim C8.
\<close>

theorem round_trip_restoration:
  "(BaseTerminal_ctor d w = (Inr t, w1) \<and> run_calls t cs w1 = (r, w2) \<and>
    BaseTerminal_dtor t w2 = (Inr u, w3) \<longrightarrow>
      orig_termios t = tty w \<and> tty w3 = tty w) \<and>
   (BaseTerminal_win32_ctor d c = (Inr t', c1) \<and> run_calls_win32 t' cs' c1 = (r', c2) \<and>
    BaseTerminal_win32_dtor t' c2 = (Inr u', c3) \<longrightarrow>
      dwOriginalOutMode t' = out_mode c \<and> dwOriginalInMode t' = in_mode c \<and>
      out_mode c3 = out_mode c \<and> in_mode c3 = in_mode c)"
proof (intro conjI impI)
  assume a: "BaseTerminal_ctor d w = (Inr t, w1) \<and> run_calls t cs w1 = (r, w2) \<and>
    BaseTerminal_dtor t w2 = (Inr u, w3)"
  with ctor_Inr [of d w t w1] dtor_Inr [of t w2 u w3]
  show "orig_termios t = tty w" and "tty w3 = tty w"
    by simp_all
next
  assume a: "BaseTerminal_win32_ctor d c = (Inr t', c1) \<and>
    run_calls_win32 t' cs' c1 = (r', c2) \<and> BaseTerminal_win32_dtor t' c2 = (Inr u', c3)"
  with win32_ctor_Inr [of d c t' c1]
  have k: "hout t' = ConsoleOutput" "hin t' = ConsoleInput"
    "dwOriginalOutMode t' = out_mode c" "dwOriginalInMode t' = in_mode c"
    by simp_all
  from k show "dwOriginalOutMode t' = out_mode c" "dwOriginalInMode t' = in_mode c"
    by simp_all
  from a k win32_dtor_Inr [of t' c2 u' c3]
  show "out_mode c3 = out_mode c" "in_mode c3 = in_mode c"
    by simp_all
qed

text \<open>
  The session on the line-mode terminal \<open>os0\<close> and on the console \<open>con0\<close>: the
  constructor changes the configuration, the destructor brings the old one back.
\<close>

theorem round_trip_restoration_witness:
  "BaseTerminal_ctor True os0 = (Inr this0, os_raw) \<and>
   run_calls this0 [Call_read_raw 0, Call_get_term_size] os_raw = (Inr (), os_raw) \<and>
   BaseTerminal_dtor this0 os_raw = (Inr (), os0\<lparr>inq := []\<rparr>) \<and>
   tty os_raw \<noteq> tty os0 \<and> tty (os0\<lparr>inq := []\<rparr>) = tty os0 \<and>
   BaseTerminal_win32_ctor True con0 = (Inr this0_win32, con_raw) \<and>
   run_calls_win32 this0_win32
     [Call_read_raw_win32 0 0, Call_get_term_size_win32 (screen con0)] con_raw =
     (Inr (), con_raw) \<and>
   BaseTerminal_win32_dtor this0_win32 con_raw = (Inr (), con0) \<and>
   out_mode con_raw \<noteq> out_mode con0 \<and> in_mode con_raw \<noteq> in_mode con0"
  using round_trip_restoration [where d = True and w = os0 and t = this0 and ?w1.0 = os_raw
      and cs = "[Call_read_raw 0, Call_get_term_size]" and r = "Inr ()" and ?w2.0 = os_raw
      and u = "()" and ?w3.0 = "os0\<lparr>inq := []\<rparr>" and c = con0 and t' = this0_win32
      and ?c1.0 = con_raw
      and cs' = "[Call_read_raw_win32 0 0, Call_get_term_size_win32 (screen con0)]"
      and r' = "Inr ()" and ?c2.0 = con_raw and u' = "()" and ?c3.0 = con0]
  by (simp add: posix_eval win32_eval example_states)

text \<open>
  Claim C8 (a restoration failure is never silent). When the call that reapplies the
  saved configuration fails, the destructor throws \<open>std::runtime_error\<close>; it is
  declared \<open>noexcept(false)\<close>, so the exception reaches the caller. Conversely a
  destructor that returns normally has put the saved configuration back. On the Windows
  branch either of the two \<open>SetConsoleMode\<close> calls can be the one that fails.
\<close>

theorem restoration_failure_surfaced:
  "(fst (tcsetattr STDIN_FILENO TCSAFLUSH (orig_termios t) w) = - 1 \<longrightarrow>
      fst (BaseTerminal_dtor t w) = Inl (runtime_error ''tcsetattr() failed in destructor'')) \<and>
   (fst (BaseTerminal_dtor t w) = Inr () \<longrightarrow>
      tty (snd (BaseTerminal_dtor t w)) = orig_termios t) \<and>
   (fst (SetConsoleMode (hout t') (dwOriginalOutMode t') c) = False \<longrightarrow>
      fst (BaseTerminal_win32_dtor t' c) =
        Inl (runtime_error ''SetConsoleMode() failed in destructor'')) \<and>
   (fst (SetConsoleMode (hin t') (dwOriginalInMode t')
          (snd (SetConsoleMode (hout t') (dwOriginalOutMode t') c))) = False \<longrightarrow>
      fst (BaseTerminal_win32_dtor t' c) =
        Inl (runtime_error ''SetConsoleMode() failed in destructor'')) \<and>
   (fst (BaseTerminal_win32_dtor t' c) = Inr () \<and>
    hout t' = ConsoleOutput \<and> hin t' = ConsoleInput \<longrightarrow>
      out_mode (snd (BaseTerminal_win32_dtor t' c)) = dwOriginalOutMode t' \<and>
      in_mode (snd (BaseTerminal_win32_dtor t' c)) = dwOriginalInMode t')"
proof (intro conjI impI)
  assume "fst (tcsetattr STDIN_FILENO TCSAFLUSH (orig_termios t) w) = - 1"
  then show "fst (BaseTerminal_dtor t w) =
      Inl (runtime_error ''tcsetattr() failed in destructor'')"
    by (auto simp: BaseTerminal_dtor_def split: prod.splits)
next
  assume "fst (BaseTerminal_dtor t w) = Inr ()"
  then have "BaseTerminal_dtor t w = (Inr (), snd (BaseTerminal_dtor t w))"
    by (metis prod.collapse)
  then show "tty (snd (BaseTerminal_dtor t w)) = orig_termios t"
    by (rule dtor_Inr)
next
  assume "fst (SetConsoleMode (hout t') (dwOriginalOutMode t') c) = False"
  then show "fst (BaseTerminal_win32_dtor t' c) =
      Inl (runtime_error ''SetConsoleMode() failed in destructor'')"
    by (auto simp: BaseTerminal_win32_dtor_def split: prod.splits)
next
  assume "fst (SetConsoleMode (hin t') (dwOriginalInMode t')
          (snd (SetConsoleMode (hout t') (dwOriginalOutMode t') c))) = False"
  then show "fst (BaseTerminal_win32_dtor t' c) =
      Inl (runtime_error ''SetConsoleMode() failed in destructor'')"
    by (auto simp: BaseTerminal_win32_dtor_def split: prod.splits)
next
  assume a: "fst (BaseTerminal_win32_dtor t' c) = Inr () \<and>
    hout t' = ConsoleOutput \<and> hin t' = ConsoleInput"
  then have "BaseTerminal_win32_dtor t' c = (Inr (), snd (BaseTerminal_win32_dtor t' c))"
    by (metis prod.collapse)
  with a win32_dtor_Inr [of t' c "()" "snd (BaseTerminal_win32_dtor t' c)"]
  show "out_mode (snd (BaseTerminal_win32_dtor t' c)) = dwOriginalOutMode t'"
    "in_mode (snd (BaseTerminal_win32_dtor t' c)) = dwOriginalInMode t'"
    by simp_all
qed

theorem restoration_failure_surfaced_witness:
  "fst (tcsetattr STDIN_FILENO TCSAFLUSH (orig_termios this0) (os_raw\<lparr>script := [Some 5]\<rparr>)) = - 1 \<and>
   BaseTerminal_dtor this0 (os_raw\<lparr>script := [Some 5]\<rparr>) =
     (Inl (runtime_error ''tcsetattr() failed in destructor''), os_raw\<lparr>errno := 5\<rparr>) \<and>
   fst (BaseTerminal_dtor this0 os_raw) = Inr () \<and>
   tty (snd (BaseTerminal_dtor this0 os_raw)) = cooked \<and>
   fst (SetConsoleMode (hout this0_win32) (dwOriginalOutMode this0_win32)
         (con_raw\<lparr>api_script := [True]\<rparr>)) = False \<and>
   BaseTerminal_win32_dtor this0_win32 (con_raw\<lparr>api_script := [True]\<rparr>) =
     (Inl (runtime_error ''SetConsoleMode() failed in destructor''), con_raw) \<and>
   fst (SetConsoleMode (hin this0_win32) (dwOriginalInMode this0_win32)
         (snd (SetConsoleMode (hout this0_win32) (dwOriginalOutMode this0_win32)
                (con_raw\<lparr>api_script := [False, True]\<rparr>)))) = False \<and>
   BaseTerminal_win32_dtor this0_win32 (con_raw\<lparr>api_script := [False, True]\<rparr>) =
     (Inl (runtime_error ''SetConsoleMode() failed in destructor''), con_raw\<lparr>out_mode := 3\<rparr>) \<and>
   BaseTerminal_win32_dtor this0_win32 con_raw = (Inr (), con0)"
  using restoration_failure_surfaced [of this0 "os_raw\<lparr>script := [Some 5]\<rparr>"
      this0_win32 "con_raw\<lparr>api_script := [True]\<rparr>"]
    restoration_failure_surfaced [of this0 os_raw
      this0_win32 "con_raw\<lparr>api_script := [False, True]\<rparr>"]
    restoration_failure_surfaced [of this0 os_raw this0_win32 con_raw]
  by (simp add: posix_eval win32_eval example_states)

subsection \<open>Reading\<close>

text \<open>
  Claim C10 (end of file is reported as absence). On the POSIX branch, when \<open>read\<close>
  returns 0 the function returns \<open>false\<close> and leaves \<open>*s\<close> alone, which is exactly
  what it does when \<open>read\<close> fails with \<open>EAGAIN\<close>: nothing is thrown and the two
  cases cannot be told apart by the caller.
\<close>

theorem end_of_file_is_absence:
  "(fst (fst (read_fd STDIN_FILENO s w)) = 0 \<longrightarrow> fst (read_raw t s w) = Inr (False, s)) \<and>
   (fst (fst (read_fd STDIN_FILENO s w)) = - 1 \<and>
    errno (snd (read_fd STDIN_FILENO s w)) = EAGAIN \<longrightarrow>
      fst (read_raw t s w) = Inr (False, s))"
  by (auto simp: read_raw_def read_fd_def next_outcome_def
      split: prod.splits option.splits list.splits)

theorem end_of_file_is_absence_witness:
  "fst (fst (read_fd STDIN_FILENO 7 os_raw)) = 0 \<and>
   read_raw this0 7 os_raw = (Inr (False, 7), os_raw) \<and>
   fst (fst (read_fd STDIN_FILENO 7 (os_raw\<lparr>script := [Some EAGAIN]\<rparr>))) = - 1 \<and>
   errno (snd (read_fd STDIN_FILENO 7 (os_raw\<lparr>script := [Some EAGAIN]\<rparr>))) = EAGAIN \<and>
   read_raw this0 7 (os_raw\<lparr>script := [Some EAGAIN]\<rparr>) =
     (Inr (False, 7), os_raw\<lparr>errno := EAGAIN\<rparr>)"
  using end_of_file_is_absence [of 7 os_raw this0]
    end_of_file_is_absence [of 7 "os_raw\<lparr>script := [Some EAGAIN]\<rparr>" this0]
  by (simp add: posix_eval example_states)

text \<open>
  Claim C4 (when \<open>read_raw\<close> throws). As stated, the claim lets \<open>read_raw\<close> throw
  only when the underlying read reports an error other than "no data". The Windows
  branch throws in one more case: \<open>kbhit()\<close> announced a key, \<open>ReadFile\<close> returned
  \<open>TRUE\<close>, and yet no byte was transferred.
\<close>

theorem read_raw_inconsistent_counterexample:
  "fst (kbhit (con_raw\<lparr>kbhit_script := [True]\<rparr>)) = True \<and>
   fst (ReadFile (hin this0_win32) 0 (snd (kbhit (con_raw\<lparr>kbhit_script := [True]\<rparr>)))) =
     (True, 0, 0) \<and>
   fst (read_raw_win32 this0_win32 0 7 (con_raw\<lparr>kbhit_script := [True]\<rparr>)) =
     Inl (runtime_error ''kbhit() and ReadFile() inconsistent'')"
  by (simp add: win32_eval example_states)

text \<open>
  Claim C4, amended. On the POSIX branch \<open>read_raw\<close> throws exactly when \<open>read\<close>
  returns \<open>-1\<close> with \<open>errno\<close> other than \<open>EAGAIN\<close>; with no input it returns
  \<open>false\<close> and leaves \<open>*s\<close> alone; with a byte waiting it returns \<open>true\<close>, stores
  exactly that byte and removes only it from the input. On the Windows branch it throws
  exactly when \<open>kbhit()\<close> reports a key and \<open>ReadFile\<close> then fails or does not
  transfer one byte; without a key it returns \<open>false\<close> and reads nothing; with a key and
  a byte it returns that byte. No call takes more than one byte.
\<close>

theorem read_raw_result:
  "((\<exists>e. fst (read_raw t s w) = Inl e) =
      (fst (fst (read_fd STDIN_FILENO s w)) = - 1 \<and>
       errno (snd (read_fd STDIN_FILENO s w)) \<noteq> EAGAIN)) \<and>
   (fst (read_raw t s w) = Inl e \<longrightarrow> e = runtime_error ''read() failed'') \<and>
   (fst (next_outcome w) = None \<and> inq w = [] \<longrightarrow> fst (read_raw t s w) = Inr (False, s)) \<and>
   (fst (next_outcome w) = None \<and> inq w = b # bs \<longrightarrow>
      fst (read_raw t s w) = Inr (True, b) \<and> inq (snd (read_raw t s w)) = bs) \<and>
   (inq (snd (read_raw t s w)) = inq w \<or> inq (snd (read_raw t s w)) = tl (inq w)) \<and>
   ((\<exists>e. fst (read_raw_win32 t' buf s c) = Inl e) =
      (fst (kbhit c) \<and>
       (fst (fst (ReadFile (hin t') buf (snd (kbhit c)))) = False \<or>
        snd (snd (fst (ReadFile (hin t') buf (snd (kbhit c))))) \<noteq> 1))) \<and>
   (fst (kbhit c) = False \<longrightarrow>
      fst (read_raw_win32 t' buf s c) = Inr (False, s) \<and>
      stdin_bytes (snd (read_raw_win32 t' buf s c)) = stdin_bytes c) \<and>
   (fst (kbhit c) \<and> hin t' = ConsoleInput \<and> fst (next_api (snd (kbhit c))) = False \<and>
    stdin_bytes c = b' # bs' \<longrightarrow>
      fst (read_raw_win32 t' buf s c) = Inr (True, b') \<and>
      stdin_bytes (snd (read_raw_win32 t' buf s c)) = bs') \<and>
   (stdin_bytes (snd (read_raw_win32 t' buf s c)) = stdin_bytes c \<or>
    stdin_bytes (snd (read_raw_win32 t' buf s c)) = tl (stdin_bytes c))"
proof (intro conjI impI)
  show "(\<exists>e. fst (read_raw t s w) = Inl e) =
      (fst (fst (read_fd STDIN_FILENO s w)) = - 1 \<and>
       errno (snd (read_fd STDIN_FILENO s w)) \<noteq> EAGAIN)"
    by (auto simp: read_raw_def split: prod.splits)
  show "fst (read_raw t s w) = Inl e \<Longrightarrow> e = runtime_error ''read() failed''"
    by (auto simp: read_raw_def split: prod.splits if_splits)
  show "fst (next_outcome w) = None \<and> inq w = [] \<Longrightarrow> fst (read_raw t s w) = Inr (False, s)"
    by (auto simp: read_raw_def read_fd_def next_outcome_def
        split: prod.splits option.splits list.splits)
  show "inq (snd (read_raw t s w)) = inq w \<or> inq (snd (read_raw t s w)) = tl (inq w)"
    by (auto simp: read_raw_def read_fd_def next_outcome_def
        split: prod.splits option.splits list.splits)
  show "(\<exists>e. fst (read_raw_win32 t' buf s c) = Inl e) =
      (fst (kbhit c) \<and>
       (fst (fst (ReadFile (hin t') buf (snd (kbhit c)))) = False \<or>
        snd (snd (fst (ReadFile (hin t') buf (snd (kbhit c))))) \<noteq> 1))"
    by (auto simp: read_raw_win32_def split: prod.splits)
  show "stdin_bytes (snd (read_raw_win32 t' buf s c)) = stdin_bytes c \<or>
    stdin_bytes (snd (read_raw_win32 t' buf s c)) = tl (stdin_bytes c)"
    by (auto simp: read_raw_win32_def ReadFile_def kbhit_def next_api_def
        split: prod.splits list.splits bool.splits HANDLE.splits)
next
  assume "fst (next_outcome w) = None \<and> inq w = b # bs"
  then show "fst (read_raw t s w) = Inr (True, b)" and "inq (snd (read_raw t s w)) = bs"
    by (auto simp: read_raw_def read_fd_def next_outcome_def
        split: prod.splits option.splits list.splits)
next
  assume "fst (kbhit c) = False"
  then show "fst (read_raw_win32 t' buf s c) = Inr (False, s)"
    and "stdin_bytes (snd (read_raw_win32 t' buf s c)) = stdin_bytes c"
    by (auto simp: read_raw_win32_def kbhit_def split: prod.splits list.splits)
next
  assume "fst (kbhit c) \<and> hin t' = ConsoleInput \<and> fst (next_api (snd (kbhit c))) = False \<and>
    stdin_bytes c = b' # bs'"
  then show "fst (read_raw_win32 t' buf s c) = Inr (True, b')"
    and "stdin_bytes (snd (read_raw_win32 t' buf s c)) = bs'"
    by (auto simp: read_raw_win32_def ReadFile_def kbhit_def next_api_def
        split: prod.splits list.splits bool.splits)
qed

theorem read_raw_result_witness:
  "read_raw this0 7 (os_raw\<lparr>script := [Some 5]\<rparr>) =
     (Inl (runtime_error ''read() failed''), os_raw\<lparr>errno := 5\<rparr>) \<and>
   fst (next_outcome os_raw) = None \<and> inq os_raw = [] \<and>
   read_raw this0 7 os_raw = (Inr (False, 7), os_raw) \<and>
   fst (next_outcome (os_raw\<lparr>inq := [97, 13]\<rparr>)) = None \<and>
   read_raw this0 7 (os_raw\<lparr>inq := [97, 13]\<rparr>) = (Inr (True, 97), os_raw\<lparr>inq := [13]\<rparr>) \<and>
   fst (kbhit con_raw) = False \<and>
   read_raw_win32 this0_win32 0 7 con_raw = (Inr (False, 7), con_raw) \<and>
   fst (kbhit (con_raw\<lparr>kbhit_script := [True], stdin_bytes := [97, 13]\<rparr>)) = True \<and>
   fst (next_api (snd (kbhit (con_raw\<lparr>kbhit_script := [True], stdin_bytes := [97, 13]\<rparr>)))) =
     False \<and>
   read_raw_win32 this0_win32 0 7 (con_raw\<lparr>kbhit_script := [True], stdin_bytes := [97, 13]\<rparr>) =
     (Inr (True, 97), con_raw\<lparr>stdin_bytes := [13]\<rparr>)"
  using read_raw_result [where t = this0 and s = 7 and w = "os_raw\<lparr>script := [Some 5]\<rparr>"
      and e = "runtime_error ''read() failed''" and b = 97 and bs = "[13]"
      and t' = this0_win32 and buf = 0 and c = con_raw and b' = 97 and bs' = "[13]"]
    read_raw_result [where t = this0 and s = 7 and w = os_raw
      and e = "runtime_error ''read() failed''" and b = 97 and bs = "[13]"
      and t' = this0_win32 and buf = 0 and c = con_raw and b' = 97 and bs' = "[13]"]
    read_raw_result [where t = this0 and s = 7 and w = "os_raw\<lparr>inq := [97, 13]\<rparr>"
      and e = "runtime_error ''read() failed''" and b = 97 and bs = "[13]"
      and t' = this0_win32 and buf = 0
      and c = "con_raw\<lparr>kbhit_script := [True], stdin_bytes := [97, 13]\<rparr>"
      and b' = 97 and bs' = "[13]"]
  by (simp add: posix_eval win32_eval example_states)

subsection \<open>Construction\<close>

text \<open>
  Claim C2 (a failing constructor leaves the terminal unmodified, after a rollback if
  need be). The Windows branch applies the output mode and then the input mode. When the
  second \<open>SetConsoleMode\<close> fails the constructor throws with the output mode already
  changed, and nothing puts the old one back: the destructor of an object whose
  constructor threw does not run.
\<close>

theorem constructor_partial_apply_counterexample:
  "BaseTerminal_win32_ctor True (con0\<lparr>api_script := [False, False, False, False, False, True]\<rparr>) =
     (Inl (runtime_error ''SetConsoleMode() failed''), con0\<lparr>out_mode := 15\<rparr>) \<and>
   out_mode (con0\<lparr>out_mode := 15\<rparr>) \<noteq> out_mode con0"
  by (simp add: win32_eval example_states)

text \<open>
  Claim C2, amended. Every failing step of the constructor makes it throw
  \<open>std::runtime_error\<close> naming the call, and no object results. The terminal is left
  as it was when the failing step is the reading of the configuration or the first
  call that applies one: on the POSIX branch always, on the Windows branch unless the
  failing call is the \<open>SetConsoleMode\<close> on the input handle. In that one case the input
  mode is unchanged and the output mode keeps the two requested bits; no rollback is
  attempted anywhere.

  The theorem gives, for each position of the first failing call, the exception and the
  whole state after the constructor: on the POSIX branch \<open>tcgetattr\<close> or \<open>tcsetattr\<close>
  (only \<open>errno\<close> and the schedule change), on the Windows branch each of the six calls
  in order (only the schedule changes, except after the sixth, where the output mode has
  the two bits added).
\<close>

theorem constructor_failure:
  "(script w = Some x # ps \<longrightarrow>
      BaseTerminal_ctor d w =
        (Inl (runtime_error ''tcgetattr() failed''), w\<lparr>script := ps, errno := x\<rparr>)) \<and>
   (script w = None # Some x # ps \<longrightarrow>
      BaseTerminal_ctor d w =
        (Inl (runtime_error ''tcsetattr() failed''), w\<lparr>script := ps, errno := x\<rparr>)) \<and>
   (fst (tcgetattr STDIN_FILENO w) = None \<longrightarrow>
      fst (BaseTerminal_ctor d w) = Inl (runtime_error ''tcgetattr() failed'')) \<and>
   (tcgetattr STDIN_FILENO w = (Some orig, w1) \<and>
    fst (tcsetattr STDIN_FILENO TCSAFLUSH (raw_termios d orig) w1) = - 1 \<longrightarrow>
      fst (BaseTerminal_ctor d w) = Inl (runtime_error ''tcsetattr() failed'')) \<and>
   (BaseTerminal_ctor d w = (Inl e, w') \<longrightarrow>
      tty w' = tty w \<and>
      (e = runtime_error ''tcgetattr() failed'' \<or> e = runtime_error ''tcsetattr() failed'')) \<and>
   (api_script c = True # fs \<longrightarrow>
      BaseTerminal_win32_ctor d c =
        (Inl (runtime_error ''GetStdHandle(STD_OUTPUT_HANDLE) failed''), c\<lparr>api_script := fs\<rparr>)) \<and>
   (api_script c = False # True # fs \<longrightarrow>
      BaseTerminal_win32_ctor d c =
        (Inl (runtime_error ''GetStdHandle(STD_INPUT_HANDLE) failed''), c\<lparr>api_script := fs\<rparr>)) \<and>
   (api_script c = False # False # True # fs \<longrightarrow>
      BaseTerminal_win32_ctor d c =
        (Inl (runtime_error ''GetConsoleMode() failed''), c\<lparr>api_script := fs\<rparr>)) \<and>
   (api_script c = False # False # False # True # fs \<longrightarrow>
      BaseTerminal_win32_ctor d c =
        (Inl (runtime_error ''GetConsoleMode() failed''), c\<lparr>api_script := fs\<rparr>)) \<and>
   (api_script c = False # False # False # False # True # fs \<longrightarrow>
      BaseTerminal_win32_ctor d c =
        (Inl (runtime_error ''SetConsoleMode() failed''), c\<lparr>api_script := fs\<rparr>)) \<and>
   (api_script c = False # False # False # False # False # True # fs \<longrightarrow>
      BaseTerminal_win32_ctor d c =
        (Inl (runtime_error ''SetConsoleMode() failed''),
         c\<lparr>api_script := fs,
           out_mode :=
             out_mode c OR (ENABLE_VIRTUAL_TERMINAL_PROCESSING OR DISABLE_NEWLINE_AUTO_RETURN)\<rparr>)) \<and>
   (n < 6 \<and> api_script c = replicate n False @ True # fs \<longrightarrow>
      (\<exists>x. fst (BaseTerminal_win32_ctor d c) = Inl x)) \<and>
   (BaseTerminal_win32_ctor d c = (Inl e', c') \<longrightarrow>
      in_mode c' = in_mode c \<and>
      (out_mode c' = out_mode c \<or>
       e' = runtime_error ''SetConsoleMode() failed'' \<and>
       out_mode c' =
         out_mode c OR (ENABLE_VIRTUAL_TERMINAL_PROCESSING OR DISABLE_NEWLINE_AUTO_RETURN)))"
proof (intro conjI impI)
  assume "script w = Some x # ps"
  then show "BaseTerminal_ctor d w =
      (Inl (runtime_error ''tcgetattr() failed''), w\<lparr>script := ps, errno := x\<rparr>)"
    by (simp add: BaseTerminal_ctor_def posix_calls)
next
  assume "script w = None # Some x # ps"
  then show "BaseTerminal_ctor d w =
      (Inl (runtime_error ''tcsetattr() failed''), w\<lparr>script := ps, errno := x\<rparr>)"
    by (simp add: BaseTerminal_ctor_def posix_calls)
next
  assume "fst (tcgetattr STDIN_FILENO w) = None"
  then show "fst (BaseTerminal_ctor d w) = Inl (runtime_error ''tcgetattr() failed'')"
    by (auto simp: BaseTerminal_ctor_def split: prod.splits option.splits)
next
  assume "tcgetattr STDIN_FILENO w = (Some orig, w1) \<and>
    fst (tcsetattr STDIN_FILENO TCSAFLUSH (raw_termios d orig) w1) = - 1"
  then show "fst (BaseTerminal_ctor d w) = Inl (runtime_error ''tcsetattr() failed'')"
    by (auto simp: BaseTerminal_ctor_def split: prod.splits option.splits)
next
  assume a: "BaseTerminal_ctor d w = (Inl e, w')"
  from ctor_Inl [OF a] show "tty w' = tty w"
    and "e = runtime_error ''tcgetattr() failed'' \<or> e = runtime_error ''tcsetattr() failed''"
    by simp_all
next
  assume "api_script c = True # fs"
  then show "BaseTerminal_win32_ctor d c =
      (Inl (runtime_error ''GetStdHandle(STD_OUTPUT_HANDLE) failed''), c\<lparr>api_script := fs\<rparr>)"
    by (simp add: win32_eval)
next
  assume "api_script c = False # True # fs"
  then show "BaseTerminal_win32_ctor d c =
      (Inl (runtime_error ''GetStdHandle(STD_INPUT_HANDLE) failed''), c\<lparr>api_script := fs\<rparr>)"
    by (simp add: win32_eval)
next
  assume "api_script c = False # False # True # fs"
  then show "BaseTerminal_win32_ctor d c =
      (Inl (runtime_error ''GetConsoleMode() failed''), c\<lparr>api_script := fs\<rparr>)"
    by (simp add: win32_eval)
next
  assume "api_script c = False # False # False # True # fs"
  then show "BaseTerminal_win32_ctor d c =
      (Inl (runtime_error ''GetConsoleMode() failed''), c\<lparr>api_script := fs\<rparr>)"
    by (simp add: win32_eval)
next
  assume "api_script c = False # False # False # False # True # fs"
  then show "BaseTerminal_win32_ctor d c =
      (Inl (runtime_error ''SetConsoleMode() failed''), c\<lparr>api_script := fs\<rparr>)"
    by (simp add: win32_eval)
next
  assume "api_script c = False # False # False # False # False # True # fs"
  then show "BaseTerminal_win32_ctor d c =
      (Inl (runtime_error ''SetConsoleMode() failed''),
       c\<lparr>api_script := fs,
         out_mode :=
           out_mode c OR (ENABLE_VIRTUAL_TERMINAL_PROCESSING OR DISABLE_NEWLINE_AUTO_RETURN)\<rparr>)"
    by (simp add: BaseTerminal_win32_ctor_def win32_calls Let_def)
next
  assume "n < 6 \<and> api_script c = replicate n False @ True # fs"
  then show "\<exists>x. fst (BaseTerminal_win32_ctor d c) = Inl x"
    using win32_ctor_failure_throws [of n c fs d] by simp
next
  assume a: "BaseTerminal_win32_ctor d c = (Inl e', c')"
  from win32_ctor_Inl [OF a] show "in_mode c' = in_mode c"
    and "out_mode c' = out_mode c \<or>
       e' = runtime_error ''SetConsoleMode() failed'' \<and>
       out_mode c' =
         out_mode c OR (ENABLE_VIRTUAL_TERMINAL_PROCESSING OR DISABLE_NEWLINE_AUTO_RETURN)"
    by simp_all
qed

theorem constructor_failure_witness:
  "BaseTerminal_ctor True (os0\<lparr>script := [Some 25]\<rparr>) =
     (Inl (runtime_error ''tcgetattr() failed''), os0\<lparr>errno := 25\<rparr>) \<and>
   fst (tcgetattr STDIN_FILENO (os0\<lparr>script := [Some 25]\<rparr>)) = None \<and>
   BaseTerminal_ctor True (os0\<lparr>script := [None, Some 5]\<rparr>) =
     (Inl (runtime_error ''tcsetattr() failed''), os0\<lparr>errno := 5\<rparr>) \<and>
   tcgetattr STDIN_FILENO (os0\<lparr>script := [None, Some 5]\<rparr>) =
     (Some cooked, os0\<lparr>script := [Some 5]\<rparr>) \<and>
   fst (tcsetattr STDIN_FILENO TCSAFLUSH (raw_termios True cooked)
         (os0\<lparr>script := [Some 5]\<rparr>)) = - 1 \<and>
   tty (os0\<lparr>errno := 5\<rparr>) = tty os0 \<and>
   BaseTerminal_win32_ctor True (con0\<lparr>api_script := [True]\<rparr>) =
     (Inl (runtime_error ''GetStdHandle(STD_OUTPUT_HANDLE) failed''), con0) \<and>
   BaseTerminal_win32_ctor True (con0\<lparr>api_script := [False, True]\<rparr>) =
     (Inl (runtime_error ''GetStdHandle(STD_INPUT_HANDLE) failed''), con0) \<and>
   BaseTerminal_win32_ctor True (con0\<lparr>api_script := [False, False, True]\<rparr>) =
     (Inl (runtime_error ''GetConsoleMode() failed''), con0) \<and>
   BaseTerminal_win32_ctor True (con0\<lparr>api_script := [False, False, False, True]\<rparr>) =
     (Inl (runtime_error ''GetConsoleMode() failed''), con0) \<and>
   BaseTerminal_win32_ctor True (con0\<lparr>api_script := [False, False, False, False, True]\<rparr>) =
     (Inl (runtime_error ''SetConsoleMode() failed''), con0) \<and>
   BaseTerminal_win32_ctor True
       (con0\<lparr>api_script := [False, False, False, False, False, True]\<rparr>) =
     (Inl (runtime_error ''SetConsoleMode() failed''), con0\<lparr>out_mode := 15\<rparr>) \<and>
   (5 :: nat) < 6 \<and>
   api_script (con0\<lparr>api_script := [False, False, False, False, False, True]\<rparr>) =
     replicate 5 False @ True # []"
  using constructor_failure [where w = "os0\<lparr>script := [Some 25]\<rparr>" and x = 25 and ps = "[]"
      and d = True and orig = cooked and ?w1.0 = os0
      and e = "runtime_error ''tcgetattr() failed''" and w' = "os0\<lparr>errno := 25\<rparr>"
      and c = "con0\<lparr>api_script := [True]\<rparr>" and fs = "[]" and n = 0
      and e' = "runtime_error ''GetStdHandle(STD_OUTPUT_HANDLE) failed''" and c' = con0]
    constructor_failure [where w = "os0\<lparr>script := [None, Some 5]\<rparr>" and x = 5 and ps = "[]"
      and d = True and orig = cooked and ?w1.0 = "os0\<lparr>script := [Some 5]\<rparr>"
      and e = "runtime_error ''tcsetattr() failed''" and w' = "os0\<lparr>errno := 5\<rparr>"
      and c = "con0\<lparr>api_script := [False, True]\<rparr>" and fs = "[]" and n = 1
      and e' = "runtime_error ''GetStdHandle(STD_INPUT_HANDLE) failed''" and c' = con0]
    constructor_failure [where w = "os0\<lparr>script := [None, Some 5]\<rparr>" and x = 5 and ps = "[]"
      and d = True and orig = cooked and ?w1.0 = "os0\<lparr>script := [Some 5]\<rparr>"
      and e = "runtime_error ''tcsetattr() failed''" and w' = "os0\<lparr>errno := 5\<rparr>"
      and c = "con0\<lparr>api_script := [False, False, True]\<rparr>" and fs = "[]" and n = 2
      and e' = "runtime_error ''GetConsoleMode() failed''" and c' = con0]
    constructor_failure [where w = "os0\<lparr>script := [None, Some 5]\<rparr>" and x = 5 and ps = "[]"
      and d = True and orig = cooked and ?w1.0 = "os0\<lparr>script := [Some 5]\<rparr>"
      and e = "runtime_error ''tcsetattr() failed''" and w' = "os0\<lparr>errno := 5\<rparr>"
      and c = "con0\<lparr>api_script := [False, False, False, True]\<rparr>" and fs = "[]" and n = 3
      and e' = "runtime_error ''GetConsoleMode() failed''" and c' = con0]
    constructor_failure [where w = "os0\<lparr>script := [None, Some 5]\<rparr>" and x = 5 and ps = "[]"
      and d = True and orig = cooked and ?w1.0 = "os0\<lparr>script := [Some 5]\<rparr>"
      and e = "runtime_error ''tcsetattr() failed''" and w' = "os0\<lparr>errno := 5\<rparr>"
      and c = "con0\<lparr>api_script := [False, False, False, False, True]\<rparr>" and fs = "[]"
      and n = 4 and e' = "runtime_error ''SetConsoleMode() failed''" and c' = con0]
    constructor_failure [where w = "os0\<lparr>script := [None, Some 5]\<rparr>" and x = 5 and ps = "[]"
      and d = True and orig = cooked and ?w1.0 = "os0\<lparr>script := [Some 5]\<rparr>"
      and e = "runtime_error ''tcsetattr() failed''" and w' = "os0\<lparr>errno := 5\<rparr>"
      and c = "con0\<lparr>api_script := [False, False, False, False, False, True]\<rparr>"
      and fs = "[]" and n = 5 and e' = "runtime_error ''SetConsoleMode() failed''"
      and c' = "con0\<lparr>out_mode := 15\<rparr>"]
  by (simp add: posix_eval win32_eval example_states eval_nat_numeral)

text \<open>
  Claim C7 (signal passthrough). The claim holds on the POSIX branch, see
  \<open>raw_termios_ISIG_cleared\<close> and \<open>raw_termios_ISIG_kept\<close>. The Windows branch
  ignores \<open>disable_ctrl_c\<close>: constructed with \<open>disable_ctrl_c = true\<close> on the console
  \<open>con0\<close>, the input mode it applies still has \<open>ENABLE_PROCESSED_INPUT\<close> set, so
  Ctrl-C is still handled by the system, and the constructor does the same for
  \<open>disable_ctrl_c = false\<close>.
\<close>

theorem win32_ctrl_c_not_disabled:
  "BaseTerminal_win32_ctor True con0 = (Inr this0_win32, con_raw) \<and>
   in_mode con_raw AND ENABLE_PROCESSED_INPUT = ENABLE_PROCESSED_INPUT \<and>
   in_mode con_raw AND ENABLE_PROCESSED_INPUT \<noteq> 0 \<and>
   BaseTerminal_win32_ctor False con0 = BaseTerminal_win32_ctor True con0"
  by (simp add: win32_eval example_states)

text \<open>
  Claim C9 (the output side is left alone). The Windows branch sets
  \<open>ENABLE_VIRTUAL_TERMINAL_PROCESSING\<close> and \<open>DISABLE_NEWLINE_AUTO_RETURN\<close> in the
  mode of the screen buffer, which is output-side configuration.
\<close>

theorem output_mode_changed_counterexample:
  "BaseTerminal_win32_ctor True con0 = (Inr this0_win32, con_raw) \<and>
   out_mode con0 = 3 \<and> out_mode con_raw = 15 \<and>
   out_mode con_raw AND DISABLE_NEWLINE_AUTO_RETURN \<noteq> out_mode con0 AND DISABLE_NEWLINE_AUTO_RETURN"
  by (simp add: win32_eval example_states)

text \<open>
  Claim C9, amended. On the POSIX branch the constructor, whether it succeeds or throws,
  and the calls on the object leave the output flags \<open>c_oflag\<close> as they were. A
  successful constructor changes the terminal attributes in this way and no other: it
  clears \<open>BRKINT | ICRNL | INPCK | ISTRIP | IXON\<close> in \<open>c_iflag\<close>, sets \<open>CS8\<close> in
  \<open>c_cflag\<close>, clears \<open>ECHO | ICANON | IEXTEN\<close> (and \<open>ISIG\<close> when
  \<open>disable_ctrl_c\<close>) in \<open>c_lflag\<close>, and sets \<open>c_cc[VMIN]\<close> and \<open>c_cc[VTIME]\<close> to
  0; every other bit and every other entry of \<open>c_cc\<close> is as before. A constructor that
  throws and the calls on the object change no attribute at all. On the Windows branch a
  successful constructor sets \<open>ENABLE_VIRTUAL_TERMINAL_PROCESSING\<close> and
  \<open>DISABLE_NEWLINE_AUTO_RETURN\<close> in the output mode and changes no other bit of it,
  and the calls on the object leave both modes alone.
\<close>

theorem output_side:
  "(BaseTerminal_ctor d w = (r, w1) \<longrightarrow> c_oflag (tty w1) = c_oflag (tty w)) \<and>
   (BaseTerminal_ctor d w = (Inr t, w1) \<longrightarrow>
      tty w1 =
        (tty w)\<lparr>c_iflag := c_iflag (tty w) AND NOT (BRKINT OR ICRNL OR INPCK OR ISTRIP OR IXON),
                 c_cflag := c_cflag (tty w) OR CS8,
                 c_lflag :=
                   (if d then (c_lflag (tty w) AND NOT (ECHO OR ICANON OR IEXTEN)) AND NOT ISIG
                    else c_lflag (tty w) AND NOT (ECHO OR ICANON OR IEXTEN)),
                 c_cc := (c_cc (tty w))[VMIN := 0, VTIME := 0]\<rparr>) \<and>
   (BaseTerminal_ctor d w = (Inr t, w1) \<longrightarrow>
      c_iflag (tty w1) AND NOT (BRKINT OR ICRNL OR INPCK OR ISTRIP OR IXON) =
        c_iflag (tty w) AND NOT (BRKINT OR ICRNL OR INPCK OR ISTRIP OR IXON) \<and>
      c_cflag (tty w1) AND NOT CS8 = c_cflag (tty w) AND NOT CS8 \<and>
      c_lflag (tty w1) AND NOT ((ECHO OR ICANON OR IEXTEN) OR ISIG) =
        c_lflag (tty w) AND NOT ((ECHO OR ICANON OR IEXTEN) OR ISIG) \<and>
      length (c_cc (tty w1)) = length (c_cc (tty w)) \<and>
      (\<forall>i. i \<noteq> VMIN \<and> i \<noteq> VTIME \<longrightarrow> c_cc (tty w1) ! i = c_cc (tty w) ! i)) \<and>
   (BaseTerminal_ctor d w = (Inl e, w1) \<longrightarrow> tty w1 = tty w) \<and>
   (run_calls t cs w1 = (r', w2) \<longrightarrow>
      tty w2 = tty w1 \<and> c_oflag (tty w2) = c_oflag (tty w1)) \<and>
   (BaseTerminal_win32_ctor d c = (Inr t', c1) \<longrightarrow>
      out_mode c1 =
        out_mode c OR (ENABLE_VIRTUAL_TERMINAL_PROCESSING OR DISABLE_NEWLINE_AUTO_RETURN) \<and>
      out_mode c1 AND NOT (ENABLE_VIRTUAL_TERMINAL_PROCESSING OR DISABLE_NEWLINE_AUTO_RETURN) =
        out_mode c AND NOT (ENABLE_VIRTUAL_TERMINAL_PROCESSING OR DISABLE_NEWLINE_AUTO_RETURN) \<and>
      in_mode c1 =
        (in_mode c OR ENABLE_VIRTUAL_TERMINAL_INPUT) AND
        NOT (ENABLE_LINE_INPUT OR ENABLE_ECHO_INPUT)) \<and>
   (run_calls_win32 t' cs' c1 = (r'', c2) \<longrightarrow>
      out_mode c2 = out_mode c1 \<and> in_mode c2 = in_mode c1)"
proof (intro conjI impI)
  assume a: "BaseTerminal_ctor d w = (r, w1)"
  show "c_oflag (tty w1) = c_oflag (tty w)"
  proof (cases r)
    case (Inl e)
    with a ctor_Inl [of d w e w1] show ?thesis by simp
  next
    case (Inr this)
    with a ctor_Inr [of d w this w1] show ?thesis by (simp add: raw_termios_c_oflag)
  qed
next
  assume a: "BaseTerminal_ctor d w = (Inr t, w1)"
  from ctor_Inr [OF a] have "tty w1 = raw_termios d (tty w)"
    by simp
  then show "tty w1 =
      (tty w)\<lparr>c_iflag := c_iflag (tty w) AND NOT (BRKINT OR ICRNL OR INPCK OR ISTRIP OR IXON),
               c_cflag := c_cflag (tty w) OR CS8,
               c_lflag :=
                 (if d then (c_lflag (tty w) AND NOT (ECHO OR ICANON OR IEXTEN)) AND NOT ISIG
                  else c_lflag (tty w) AND NOT (ECHO OR ICANON OR IEXTEN)),
               c_cc := (c_cc (tty w))[VMIN := 0, VTIME := 0]\<rparr>"
    by (simp only: raw_termios_eq)
next
  assume a: "BaseTerminal_ctor d w = (Inr t, w1)"
  from ctor_Inr [OF a] have e: "tty w1 = raw_termios d (tty w)"
    by simp
  from raw_termios_flags_frame [of d "tty w"]
  show "c_iflag (tty w1) AND NOT (BRKINT OR ICRNL OR INPCK OR ISTRIP OR IXON) =
      c_iflag (tty w) AND NOT (BRKINT OR ICRNL OR INPCK OR ISTRIP OR IXON)"
    and "c_cflag (tty w1) AND NOT CS8 = c_cflag (tty w) AND NOT CS8"
    and "c_lflag (tty w1) AND NOT ((ECHO OR ICANON OR IEXTEN) OR ISIG) =
      c_lflag (tty w) AND NOT ((ECHO OR ICANON OR IEXTEN) OR ISIG)"
    by (simp_all only: e)
  from raw_termios_c_cc_frame [of d "tty w"]
  show "length (c_cc (tty w1)) = length (c_cc (tty w))"
    by (simp only: e)
  show "\<forall>i. i \<noteq> VMIN \<and> i \<noteq> VTIME \<longrightarrow> c_cc (tty w1) ! i = c_cc (tty w) ! i"
    using raw_termios_c_cc_frame [of d "tty w"] by (simp only: e) simp
next
  assume a: "BaseTerminal_ctor d w = (Inl e, w1)"
  from ctor_Inl [OF a] show "tty w1 = tty w"
    by simp
next
  assume a: "run_calls t cs w1 = (r', w2)"
  from run_calls_tty [OF a] show "tty w2 = tty w1" and "c_oflag (tty w2) = c_oflag (tty w1)"
    by simp_all
next
  assume a: "BaseTerminal_win32_ctor d c = (Inr t', c1)"
  from win32_ctor_Inr [OF a] show o: "out_mode c1 =
      out_mode c OR (ENABLE_VIRTUAL_TERMINAL_PROCESSING OR DISABLE_NEWLINE_AUTO_RETURN)"
    and "in_mode c1 =
      (in_mode c OR ENABLE_VIRTUAL_TERMINAL_INPUT) AND
      NOT (ENABLE_LINE_INPUT OR ENABLE_ECHO_INPUT)"
    by simp_all
  show "out_mode c1 AND NOT (ENABLE_VIRTUAL_TERMINAL_PROCESSING OR DISABLE_NEWLINE_AUTO_RETURN) =
      out_mode c AND NOT (ENABLE_VIRTUAL_TERMINAL_PROCESSING OR DISABLE_NEWLINE_AUTO_RETURN)"
    by (simp only: o or_and_not_mask)
next
  assume a: "run_calls_win32 t' cs' c1 = (r'', c2)"
  from run_calls_win32_modes [OF a] show "out_mode c2 = out_mode c1" and "in_mode c2 = in_mode c1"
    by simp_all
qed

theorem output_side_witness:
  "BaseTerminal_ctor True os0 = (Inr this0, os_raw) \<and>
   tty os0 =
     \<lparr>c_iflag = 1280, c_oflag = 5, c_cflag = 191, c_lflag = 35387,
      c_cc = [3, 28, 127, 21, 4, 0, 1, 0, 17, 19, 26, 0, 18, 15, 23, 22,
              0, 0, 0, 0, 0, 0, 0, 0, 0, 0, 0, 0, 0, 0, 0, 0]\<rparr> \<and>
   tty os_raw =
     \<lparr>c_iflag = 0, c_oflag = 5, c_cflag = 191, c_lflag = 2608,
      c_cc = [3, 28, 127, 21, 4, 0, 0, 0, 17, 19, 26, 0, 18, 15, 23, 22,
              0, 0, 0, 0, 0, 0, 0, 0, 0, 0, 0, 0, 0, 0, 0, 0]\<rparr> \<and>
   BaseTerminal_ctor True (os0\<lparr>script := [None, Some 5]\<rparr>) =
     (Inl (runtime_error ''tcsetattr() failed''), os0\<lparr>errno := 5\<rparr>) \<and>
   run_calls this0 [Call_read_raw 0, Call_get_term_size] os_raw = (Inr (), os_raw) \<and>
   BaseTerminal_win32_ctor True con0 = (Inr this0_win32, con_raw) \<and>
   out_mode con_raw = 15 \<and> out_mode con0 = 3 \<and>
   in_mode con_raw = 1009 \<and> in_mode con0 = 503 \<and>
   run_calls_win32 this0_win32
     [Call_read_raw_win32 0 0, Call_get_term_size_win32 (screen con0)] con_raw =
     (Inr (), con_raw)"
  using output_side [where d = True and w = os0 and r = "Inr this0" and ?w1.0 = os_raw
      and t = this0 and e = "runtime_error ''tcsetattr() failed''"
      and cs = "[Call_read_raw 0, Call_get_term_size]" and r' = "Inr ()"
      and ?w2.0 = os_raw and c = con0 and t' = this0_win32 and ?c1.0 = con_raw
      and cs' = "[Call_read_raw_win32 0 0, Call_get_term_size_win32 (screen con0)]"
      and r'' = "Inr ()" and ?c2.0 = con_raw]
    output_side [where d = True and w = "os0\<lparr>script := [None, Some 5]\<rparr>"
      and r = "Inl (runtime_error ''tcsetattr() failed'')" and ?w1.0 = "os0\<lparr>errno := 5\<rparr>"
      and t = this0 and e = "runtime_error ''tcsetattr() failed''"
      and cs = "[]" and r' = "Inr ()"
      and ?w2.0 = "os0\<lparr>errno := 5\<rparr>" and c = con0 and t' = this0_win32 and ?c1.0 = con_raw
      and cs' = "[Call_read_raw_win32 0 0, Call_get_term_size_win32 (screen con0)]"
      and r'' = "Inr ()" and ?c2.0 = con_raw]
  by (simp add: posix_eval win32_eval example_states)

subsection \<open>The size of the window\<close>

text \<open>
  Claim C3 (the size is positive). The POSIX branch refuses a window of zero columns but
  passes on whatever row count \<open>ioctl\<close> reports: for a window of 0 rows and 80 columns
  it returns \<open>rows = 0\<close> without throwing.
\<close>

theorem get_term_size_zero_rows_counterexample:
  "get_term_size this0
     (os_raw\<lparr>window := \<lparr>ws_row = 0, ws_col = 80, ws_xpixel = 0, ws_ypixel = 0\<rparr>\<rparr>) =
     (Inr (0, 80),
      os_raw\<lparr>window := \<lparr>ws_row = 0, ws_col = 80, ws_xpixel = 0, ws_ypixel = 0\<rparr>\<rparr>)"
  by (simp add: posix_eval example_states)

text \<open>
  Claim C3, amended. On the POSIX branch, when \<open>ioctl\<close> succeeds and reports a column
  count other than zero, \<open>get_term_size\<close> returns the reported \<open>ws_row\<close> and
  \<open>ws_col\<close> as \<open>rows\<close> and \<open>cols\<close>: both positive for a window with rows and
  columns, and \<open>rows = 0\<close> for a window that reports zero rows. It throws
  \<open>std::runtime_error\<close> exactly when \<open>ioctl\<close> fails or reports zero columns. So it
  returns only with \<open>cols > 0\<close>, and \<open>rows\<close> is never negative and is positive
  exactly when the reported row count is not zero. On the Windows branch a successful
  query returns \<open>Bottom - Top + 1\<close> and \<open>Right - Left + 1\<close> of the window, which are
  positive for a window with \<open>Left \<le> Right\<close> and \<open>Top \<le> Bottom\<close>.
\<close>

theorem get_term_size_result:
  "(fst (next_outcome w) = None \<and> ws_col (window w) \<noteq> 0 \<longrightarrow>
      get_term_size t w =
        (Inr (uint (ws_row (window w)), uint (ws_col (window w))), snd (next_outcome w))) \<and>
   (fst (next_outcome w) = None \<and> ws_col (window w) \<noteq> 0 \<and> ws_row (window w) = 0 \<longrightarrow>
      fst (get_term_size t w) = Inr (0, uint (ws_col (window w)))) \<and>
   (fst (next_outcome w) = None \<and> ws_col (window w) \<noteq> 0 \<and> ws_row (window w) \<noteq> 0 \<longrightarrow>
      (\<exists>rows cols. fst (get_term_size t w) = Inr (rows, cols) \<and> 0 < rows \<and> 0 < cols)) \<and>
   ((\<exists>e. fst (get_term_size t w) = Inl e) =
      (fst (ioctl_TIOCGWINSZ STDOUT_FILENO w) = None \<or> ws_col (window w) = 0)) \<and>
   (get_term_size t w = (Inr (rows, cols), w') \<longrightarrow>
      0 < cols \<and> cols = uint (ws_col (window w)) \<and>
      0 \<le> rows \<and> rows = uint (ws_row (window w)) \<and>
      (0 < rows) = (ws_row (window w) \<noteq> 0)) \<and>
   (ws_col (window w) = 0 \<longrightarrow>
      fst (get_term_size t w) = Inl (runtime_error ''ioctl() failed'')) \<and>
   (fst (ioctl_TIOCGWINSZ STDOUT_FILENO w) = None \<longrightarrow>
      fst (get_term_size t w) = Inl (runtime_error ''ioctl() failed'')) \<and>
   (hout t' = ConsoleOutput \<and> fst (next_api c) = False \<longrightarrow>
      get_term_size_win32 t' csbi c =
        ((sint (Bottom (srWindow (screen c))) - sint (Top (srWindow (screen c))) + 1,
          sint (Right (srWindow (screen c))) - sint (Left (srWindow (screen c))) + 1),
         snd (next_api c))) \<and>
   (hout t' = ConsoleOutput \<and> fst (next_api c) = False \<and>
    sint (Left (srWindow (screen c))) \<le> sint (Right (srWindow (screen c))) \<and>
    sint (Top (srWindow (screen c))) \<le> sint (Bottom (srWindow (screen c))) \<longrightarrow>
      0 < fst (fst (get_term_size_win32 t' csbi c)) \<and>
      0 < snd (fst (get_term_size_win32 t' csbi c))) \<and>
   (GetConsoleScreenBufferInfo (hout t') csbi c = ((True, csbi'), c1) \<and>
    sint (Left (srWindow csbi')) \<le> sint (Right (srWindow csbi')) \<and>
    sint (Top (srWindow csbi')) \<le> sint (Bottom (srWindow csbi')) \<and>
    get_term_size_win32 t' csbi c = ((rows', cols'), c') \<longrightarrow>
      0 < rows' \<and> 0 < cols')"
proof (intro conjI impI)
  assume a: "fst (next_outcome w) = None \<and> ws_col (window w) \<noteq> 0"
  then show "get_term_size t w =
      (Inr (uint (ws_row (window w)), uint (ws_col (window w))), snd (next_outcome w))"
    by (auto simp: get_term_size_def ioctl_TIOCGWINSZ_def next_outcome_def
        split: prod.splits option.splits list.splits)
next
  assume a: "fst (next_outcome w) = None \<and> ws_col (window w) \<noteq> 0 \<and> ws_row (window w) = 0"
  then show "fst (get_term_size t w) = Inr (0, uint (ws_col (window w)))"
    by (auto simp: get_term_size_def ioctl_TIOCGWINSZ_def next_outcome_def
        split: prod.splits option.splits list.splits)
next
  assume a: "fst (next_outcome w) = None \<and> ws_col (window w) \<noteq> 0 \<and> ws_row (window w) \<noteq> 0"
  then have "fst (get_term_size t w) = Inr (uint (ws_row (window w)), uint (ws_col (window w)))"
    by (auto simp: get_term_size_def ioctl_TIOCGWINSZ_def next_outcome_def
        split: prod.splits option.splits list.splits)
  moreover from a have "0 < uint (ws_row (window w))" and "0 < uint (ws_col (window w))"
    by (simp_all add: word_neq_0_conv word_less_def)
  ultimately show "\<exists>rows cols. fst (get_term_size t w) = Inr (rows, cols) \<and> 0 < rows \<and> 0 < cols"
    by blast
next
  show "(\<exists>e. fst (get_term_size t w) = Inl e) =
      (fst (ioctl_TIOCGWINSZ STDOUT_FILENO w) = None \<or> ws_col (window w) = 0)"
    by (auto simp: get_term_size_def ioctl_TIOCGWINSZ_def next_outcome_def
        split: prod.splits option.splits list.splits)
next
  assume a: "get_term_size t w = (Inr (rows, cols), w')"
  then have ws: "ws_col (window w) \<noteq> 0" "cols = uint (ws_col (window w))"
    "rows = uint (ws_row (window w))"
    by (auto simp: get_term_size_def ioctl_TIOCGWINSZ_def next_outcome_def
        split: prod.splits option.splits list.splits if_splits)
  from ws show "cols = uint (ws_col (window w))" and "rows = uint (ws_row (window w))"
    by simp_all
  from ws show "0 < cols"
    by (simp add: word_neq_0_conv word_less_def)
  from ws show "0 \<le> rows"
    by simp
  from ws show "(0 < rows) = (ws_row (window w) \<noteq> 0)"
    by (simp add: word_neq_0_conv word_less_def)
next
  assume "ws_col (window w) = 0"
  then show "fst (get_term_size t w) = Inl (runtime_error ''ioctl() failed'')"
    by (auto simp: get_term_size_def ioctl_TIOCGWINSZ_def next_outcome_def
        split: prod.splits option.splits list.splits)
next
  assume "fst (ioctl_TIOCGWINSZ STDOUT_FILENO w) = None"
  then show "fst (get_term_size t w) = Inl (runtime_error ''ioctl() failed'')"
    by (auto simp: get_term_size_def split: prod.splits option.splits)
next
  assume "hout t' = ConsoleOutput \<and> fst (next_api c) = False"
  then show "get_term_size_win32 t' csbi c =
      ((sint (Bottom (srWindow (screen c))) - sint (Top (srWindow (screen c))) + 1,
        sint (Right (srWindow (screen c))) - sint (Left (srWindow (screen c))) + 1),
       snd (next_api c))"
    by (auto simp: get_term_size_win32_def GetConsoleScreenBufferInfo_def next_api_def Let_def
        split: prod.splits list.splits bool.splits)
next
  assume "hout t' = ConsoleOutput \<and> fst (next_api c) = False \<and>
    sint (Left (srWindow (screen c))) \<le> sint (Right (srWindow (screen c))) \<and>
    sint (Top (srWindow (screen c))) \<le> sint (Bottom (srWindow (screen c)))"
  then show "0 < fst (fst (get_term_size_win32 t' csbi c))"
    and "0 < snd (fst (get_term_size_win32 t' csbi c))"
    by (auto simp: get_term_size_win32_def GetConsoleScreenBufferInfo_def next_api_def Let_def
        split: prod.splits list.splits bool.splits)
next
  assume a: "GetConsoleScreenBufferInfo (hout t') csbi c = ((True, csbi'), c1) \<and>
    sint (Left (srWindow csbi')) \<le> sint (Right (srWindow csbi')) \<and>
    sint (Top (srWindow csbi')) \<le> sint (Bottom (srWindow csbi')) \<and>
    get_term_size_win32 t' csbi c = ((rows', cols'), c')"
  then show "0 < rows'" and "0 < cols'"
    by (auto simp: get_term_size_win32_def Let_def)
qed

theorem get_term_size_result_witness:
  "fst (next_outcome os_raw) = None \<and>
   ws_col (window os_raw) \<noteq> 0 \<and> ws_row (window os_raw) \<noteq> 0 \<and>
   get_term_size this0 os_raw = (Inr (24, 80), os_raw) \<and>
   fst (next_outcome (os_raw\<lparr>window := \<lparr>ws_row = 0, ws_col = 80, ws_xpixel = 0, ws_ypixel = 0\<rparr>\<rparr>)) = None \<and>
   ws_col (window (os_raw\<lparr>window := \<lparr>ws_row = 0, ws_col = 80, ws_xpixel = 0, ws_ypixel = 0\<rparr>\<rparr>)) \<noteq> 0 \<and> ws_row (window (os_raw\<lparr>window := \<lparr>ws_row = 0, ws_col = 80, ws_xpixel = 0, ws_ypixel = 0\<rparr>\<rparr>)) = 0 \<and>
   get_term_size this0 (os_raw\<lparr>window := \<lparr>ws_row = 0, ws_col = 80, ws_xpixel = 0, ws_ypixel = 0\<rparr>\<rparr>) = (Inr (0, 80), os_raw\<lparr>window := \<lparr>ws_row = 0, ws_col = 80, ws_xpixel = 0, ws_ypixel = 0\<rparr>\<rparr>) \<and>
   ws_col (window (os_raw\<lparr>window := \<lparr>ws_row = 24, ws_col = 0, ws_xpixel = 0, ws_ypixel = 0\<rparr>\<rparr>)) = 0 \<and>
   fst (get_term_size this0 (os_raw\<lparr>window := \<lparr>ws_row = 24, ws_col = 0, ws_xpixel = 0, ws_ypixel = 0\<rparr>\<rparr>)) = Inl (runtime_error ''ioctl() failed'') \<and>
   fst (ioctl_TIOCGWINSZ STDOUT_FILENO (os_raw\<lparr>script := [Some 25]\<rparr>)) = None \<and>
   fst (get_term_size this0 (os_raw\<lparr>script := [Some 25]\<rparr>)) = Inl (runtime_error ''ioctl() failed'') \<and>
   hout this0_win32 = ConsoleOutput \<and> fst (next_api con_raw) = False \<and>
   GetConsoleScreenBufferInfo (hout this0_win32) (screen con0) con_raw =
     ((True, screen con0), con_raw) \<and>
   get_term_size_win32 this0_win32 (screen con0) con_raw = ((24, 80), con_raw)"
  using get_term_size_result [where t = this0 and w = "os_raw" and rows = 24 and cols = 80
      and w' = "os_raw" and t' = this0_win32 and csbi = "screen con0" and c = con_raw
      and csbi' = "screen con0" and ?c1.0 = con_raw and rows' = 24 and cols' = 80
      and c' = con_raw]
    get_term_size_result [where t = this0 and w = "os_raw\<lparr>window := \<lparr>ws_row = 0, ws_col = 80, ws_xpixel = 0, ws_ypixel = 0\<rparr>\<rparr>" and rows = 0 and cols = 80
      and w' = "os_raw\<lparr>window := \<lparr>ws_row = 0, ws_col = 80, ws_xpixel = 0, ws_ypixel = 0\<rparr>\<rparr>" and t' = this0_win32 and csbi = "screen con0" and c = con_raw
      and csbi' = "screen con0" and ?c1.0 = con_raw and rows' = 24 and cols' = 80
      and c' = con_raw]
    get_term_size_result [where t = this0 and w = "os_raw\<lparr>window := \<lparr>ws_row = 24, ws_col = 0, ws_xpixel = 0, ws_ypixel = 0\<rparr>\<rparr>" and rows = 24 and cols = 80
      and w' = "os_raw" and t' = this0_win32 and csbi = "screen con0" and c = con_raw
      and csbi' = "screen con0" and ?c1.0 = con_raw and rows' = 24 and cols' = 80
      and c' = con_raw]
    get_term_size_result [where t = this0 and w = "os_raw\<lparr>script := [Some 25]\<rparr>" and rows = 24 and cols = 80
      and w' = "os_raw" and t' = this0_win32 and csbi = "screen con0" and c = con_raw
      and csbi' = "screen con0" and ?c1.0 = con_raw and rows' = 24 and cols' = 80
      and c' = con_raw]
  by (simp add: posix_eval win32_eval example_states)

subsection \<open>After the destructor\<close>

text \<open>
  Claim C5 (release twice). The destructor keeps no record of having run. Run again, it
  calls \<open>tcsetattr\<close> again, and throws when that call fails: here the first run
  succeeds and the second throws.
\<close>

theorem second_release_counterexample:
  "BaseTerminal_dtor this0 (os_raw\<lparr>script := [None, Some 5]\<rparr>) =
     (Inr (), os0\<lparr>inq := [], script := [Some 5]\<rparr>) \<and>
   BaseTerminal_dtor this0 (os0\<lparr>inq := [], script := [Some 5]\<rparr>) =
     (Inl (runtime_error ''tcsetattr() failed in destructor''), os0\<lparr>inq := [], errno := 5\<rparr>)"
  by (simp add: posix_eval example_states)

text \<open>
  Claim C5, amended. When two runs of the destructor both return, the terminal
  configuration after the second is the one after the first, the saved one. The second
  run is a full run: it makes the system call again, which on the POSIX branch also
  discards the input that has arrived meanwhile, and it throws \<open>std::runtime_error\<close>
  when that call fails.
\<close>

theorem second_release:
  "(BaseTerminal_dtor t w = (Inr u, w1) \<and> BaseTerminal_dtor t w1 = (Inr u', w2) \<longrightarrow>
      tty w2 = tty w1 \<and> tty w1 = orig_termios t) \<and>
   (script w1 = Some e # fs \<longrightarrow>
      BaseTerminal_dtor t w1 =
        (Inl (runtime_error ''tcsetattr() failed in destructor''), w1\<lparr>script := fs, errno := e\<rparr>)) \<and>
   (script w1 = None # fs \<longrightarrow>
      BaseTerminal_dtor t w1 =
        (Inr (), w1\<lparr>script := fs, tty := orig_termios t, inq := []\<rparr>)) \<and>
   (BaseTerminal_win32_dtor t' c = (Inr v, c1) \<and> BaseTerminal_win32_dtor t' c1 = (Inr v', c2) \<and>
    hout t' = ConsoleOutput \<and> hin t' = ConsoleInput \<longrightarrow>
      out_mode c2 = out_mode c1 \<and> in_mode c2 = in_mode c1 \<and>
      out_mode c1 = dwOriginalOutMode t' \<and> in_mode c1 = dwOriginalInMode t') \<and>
   (api_script c1 = True # fs' \<longrightarrow>
      BaseTerminal_win32_dtor t' c1 =
        (Inl (runtime_error ''SetConsoleMode() failed in destructor''), c1\<lparr>api_script := fs'\<rparr>))"
proof (intro conjI impI)
  assume a: "BaseTerminal_dtor t w = (Inr u, w1) \<and> BaseTerminal_dtor t w1 = (Inr u', w2)"
  with dtor_Inr [of t w u w1] dtor_Inr [of t w1 u' w2]
  show "tty w2 = tty w1" and "tty w1 = orig_termios t"
    by simp_all
next
  assume "script w1 = Some e # fs"
  then show "BaseTerminal_dtor t w1 =
      (Inl (runtime_error ''tcsetattr() failed in destructor''), w1\<lparr>script := fs, errno := e\<rparr>)"
    by (simp add: BaseTerminal_dtor_def tcsetattr_def next_outcome_def)
next
  assume "script w1 = None # fs"
  then show "BaseTerminal_dtor t w1 =
      (Inr (), w1\<lparr>script := fs, tty := orig_termios t, inq := []\<rparr>)"
    by (simp add: BaseTerminal_dtor_def tcsetattr_def next_outcome_def)
next
  assume a: "BaseTerminal_win32_dtor t' c = (Inr v, c1) \<and>
    BaseTerminal_win32_dtor t' c1 = (Inr v', c2) \<and>
    hout t' = ConsoleOutput \<and> hin t' = ConsoleInput"
  with win32_dtor_Inr [of t' c v c1] win32_dtor_Inr [of t' c1 v' c2]
  show "out_mode c2 = out_mode c1" and "in_mode c2 = in_mode c1"
    and "out_mode c1 = dwOriginalOutMode t'" and "in_mode c1 = dwOriginalInMode t'"
    by simp_all
next
  assume "api_script c1 = True # fs'"
  then show "BaseTerminal_win32_dtor t' c1 =
      (Inl (runtime_error ''SetConsoleMode() failed in destructor''), c1\<lparr>api_script := fs'\<rparr>)"
    by (simp add: BaseTerminal_win32_dtor_def SetConsoleMode_def next_api_def)
qed

theorem second_release_witness:
  "BaseTerminal_dtor this0 (os_raw\<lparr>script := [None, None]\<rparr>) =
     (Inr (), os0\<lparr>inq := [], script := [None]\<rparr>) \<and>
   BaseTerminal_dtor this0 (os0\<lparr>inq := [], script := [None]\<rparr>) = (Inr (), os0\<lparr>inq := []\<rparr>) \<and>
   script (os0\<lparr>inq := [97], script := [None]\<rparr>) = [None] \<and>
   BaseTerminal_dtor this0 (os0\<lparr>inq := [97], script := [None]\<rparr>) = (Inr (), os0\<lparr>inq := []\<rparr>) \<and>
   script (os0\<lparr>script := [Some 5]\<rparr>) = [Some 5] \<and>
   BaseTerminal_dtor this0 (os0\<lparr>script := [Some 5]\<rparr>) =
     (Inl (runtime_error ''tcsetattr() failed in destructor''), os0\<lparr>errno := 5\<rparr>) \<and>
   BaseTerminal_win32_dtor this0_win32 con_raw = (Inr (), con0) \<and>
   BaseTerminal_win32_dtor this0_win32 con0 = (Inr (), con0) \<and>
   hout this0_win32 = ConsoleOutput \<and> hin this0_win32 = ConsoleInput \<and>
   api_script (con0\<lparr>api_script := [True]\<rparr>) = [True] \<and>
   BaseTerminal_win32_dtor this0_win32 (con0\<lparr>api_script := [True]\<rparr>) =
     (Inl (runtime_error ''SetConsoleMode() failed in destructor''), con0)"
  using second_release [where t = this0 and w = "os_raw\<lparr>script := [None, None]\<rparr>"
      and u = "()" and ?w1.0 = "os0\<lparr>inq := [], script := [None]\<rparr>" and u' = "()"
      and ?w2.0 = "os0\<lparr>inq := []\<rparr>" and e = 5 and fs = "[]"
      and t' = this0_win32 and c = con_raw and v = "()" and ?c1.0 = con0 and v' = "()"
      and ?c2.0 = con0 and fs' = "[]"]
    second_release [where t = this0 and w = "os_raw\<lparr>script := [None, None]\<rparr>"
      and u = "()" and ?w1.0 = "os0\<lparr>inq := [97], script := [None]\<rparr>" and u' = "()"
      and ?w2.0 = "os0\<lparr>inq := []\<rparr>" and e = 5 and fs = "[]"
      and t' = this0_win32 and c = con_raw and v = "()"
      and ?c1.0 = "con0\<lparr>api_script := [True]\<rparr>" and v' = "()"
      and ?c2.0 = con0 and fs' = "[]"]
    second_release [where t = this0 and w = "os_raw\<lparr>script := [None, None]\<rparr>"
      and u = "()" and ?w1.0 = "os0\<lparr>script := [Some 5]\<rparr>" and u' = "()"
      and ?w2.0 = "os0\<lparr>inq := []\<rparr>" and e = 5 and fs = "[]"
      and t' = this0_win32 and c = con_raw and v = "()"
      and ?c1.0 = "con0\<lparr>api_script := [True]\<rparr>" and v' = "()"
      and ?c2.0 = con0 and fs' = "[]"]
  by (simp add: posix_eval win32_eval example_states)

text \<open>
  Claim C6 (use after close). The class has no state for "released" and no such error.
  The object is a value that can be copied, and a copy holds the same saved attributes:
  after the destructor has restored the terminal, \<open>get_term_size\<close> on it returns the
  size of the window.
\<close>

theorem use_after_destruction_counterexample:
  "BaseTerminal_dtor this0 os_raw = (Inr (), os0\<lparr>inq := []\<rparr>) \<and>
   get_term_size this0 (os0\<lparr>inq := []\<rparr>) = (Inr (24, 80), os0\<lparr>inq := []\<rparr>)"
  by (simp add: posix_eval example_states)

text \<open>
  Claim C6, amended. No call after the destructor fails with a use-after-close error.
  After the destructor has run, whether it returned or threw, \<open>get_term_size\<close> does
  what it does on a live object: it returns the size the window reports when \<open>ioctl\<close>
  succeeds with a column count other than zero, and throws \<open>std::runtime_error\<close>
  ("ioctl() failed") otherwise; the destructor does not touch the size, and the result
  does not depend on the terminal attributes or on the object. The only exception
  \<open>read_raw\<close> can throw after the destructor is \<open>std::runtime_error\<close> for a failing
  read. When and with what \<open>read_raw\<close> returns then depends on the restored terminal
  mode and is not part of the amended claim; on the Windows branch it still returns
  \<open>false\<close> at once when \<open>kbhit()\<close> reports no key.
\<close>

theorem no_released_state:
  "(BaseTerminal_dtor t w = (r, w1) \<and> fst (next_outcome w1) = None \<and>
    ws_col (window w) \<noteq> 0 \<longrightarrow>
      fst (get_term_size t w1) = Inr (uint (ws_row (window w)), uint (ws_col (window w)))) \<and>
   (BaseTerminal_dtor t w = (r, w1) \<and> fst (next_outcome w1) = Some x \<longrightarrow>
      fst (get_term_size t w1) = Inl (runtime_error ''ioctl() failed'')) \<and>
   (BaseTerminal_dtor t w = (r, w1) \<and> ws_col (window w) = 0 \<longrightarrow>
      fst (get_term_size t w1) = Inl (runtime_error ''ioctl() failed'')) \<and>
   (BaseTerminal_dtor t w = (r, w1) \<and> fst (read_raw t s w1) = Inl e \<longrightarrow>
      e = runtime_error ''read() failed'') \<and>
   fst (get_term_size t (w\<lparr>tty := a\<rparr>)) = fst (get_term_size t w) \<and>
   read_raw t s w = read_raw t0 s w \<and>
   get_term_size t w = get_term_size t0 w \<and>
   (BaseTerminal_win32_dtor t' c = (r', c1) \<and> hout t' = ConsoleOutput \<and>
    fst (next_api c1) = False \<longrightarrow>
      fst (get_term_size_win32 t' csbi c1) =
        (sint (Bottom (srWindow (screen c))) - sint (Top (srWindow (screen c))) + 1,
         sint (Right (srWindow (screen c))) - sint (Left (srWindow (screen c))) + 1)) \<and>
   (BaseTerminal_win32_dtor t' c = (r', c1) \<and> fst (kbhit c1) = False \<longrightarrow>
      fst (read_raw_win32 t' buf s c1) = Inr (False, s)) \<and>
   (BaseTerminal_win32_dtor t' c = (r', c1) \<and> fst (read_raw_win32 t' buf s c1) = Inl e \<longrightarrow>
      e = runtime_error ''ReadFile() failed'' \<or>
      e = runtime_error ''kbhit() and ReadFile() inconsistent'') \<and>
   (hin t' = hin t0' \<longrightarrow> read_raw_win32 t' buf s c = read_raw_win32 t0' buf s c) \<and>
   (hout t' = hout t0' \<longrightarrow> get_term_size_win32 t' csbi c = get_term_size_win32 t0' csbi c)"
proof (intro conjI impI)
  assume a: "BaseTerminal_dtor t w = (r, w1) \<and> fst (next_outcome w1) = None \<and>
    ws_col (window w) \<noteq> 0"
  with dtor_window [of t w r w1] get_term_size_ok [of w1 t]
  show "fst (get_term_size t w1) = Inr (uint (ws_row (window w)), uint (ws_col (window w)))"
    by simp
next
  assume a: "BaseTerminal_dtor t w = (r, w1) \<and> fst (next_outcome w1) = Some x"
  with get_term_size_throws [of w1 t]
  show "fst (get_term_size t w1) = Inl (runtime_error ''ioctl() failed'')"
    by simp
next
  assume a: "BaseTerminal_dtor t w = (r, w1) \<and> ws_col (window w) = 0"
  with dtor_window [of t w r w1] get_term_size_throws [of w1 t]
  show "fst (get_term_size t w1) = Inl (runtime_error ''ioctl() failed'')"
    by simp
next
  assume "BaseTerminal_dtor t w = (r, w1) \<and> fst (read_raw t s w1) = Inl e"
  then show "e = runtime_error ''read() failed''"
    by (auto simp: read_raw_def split: prod.splits if_splits)
next
  show "fst (get_term_size t (w\<lparr>tty := a\<rparr>)) = fst (get_term_size t w)"
    by (auto simp: get_term_size_def ioctl_TIOCGWINSZ_def next_outcome_def
        split: prod.splits option.splits list.splits)
  show "read_raw t s w = read_raw t0 s w"
    by (simp add: read_raw_def)
  show "get_term_size t w = get_term_size t0 w"
    by (simp add: get_term_size_def)
next
  assume a: "BaseTerminal_win32_dtor t' c = (r', c1) \<and> hout t' = ConsoleOutput \<and>
    fst (next_api c1) = False"
  with win32_dtor_screen [of t' c r' c1] get_term_size_win32_ok [of t' c1 csbi]
  show "fst (get_term_size_win32 t' csbi c1) =
      (sint (Bottom (srWindow (screen c))) - sint (Top (srWindow (screen c))) + 1,
       sint (Right (srWindow (screen c))) - sint (Left (srWindow (screen c))) + 1)"
    by simp
next
  assume "BaseTerminal_win32_dtor t' c = (r', c1) \<and> fst (kbhit c1) = False"
  then show "fst (read_raw_win32 t' buf s c1) = Inr (False, s)"
    by (auto simp: read_raw_win32_def split: prod.splits)
next
  assume "BaseTerminal_win32_dtor t' c = (r', c1) \<and> fst (read_raw_win32 t' buf s c1) = Inl e"
  then show "e = runtime_error ''ReadFile() failed'' \<or>
      e = runtime_error ''kbhit() and ReadFile() inconsistent''"
    by (auto simp: read_raw_win32_def split: prod.splits if_splits)
next
  show "hin t' = hin t0' \<Longrightarrow> read_raw_win32 t' buf s c = read_raw_win32 t0' buf s c"
    by (simp only: read_raw_win32_def)
  show "hout t' = hout t0' \<Longrightarrow>
      get_term_size_win32 t' csbi c = get_term_size_win32 t0' csbi c"
    by (simp only: get_term_size_win32_def)
qed

theorem no_released_state_witness:
  "BaseTerminal_dtor this0 os_raw = (Inr (), os0\<lparr>inq := []\<rparr>) \<and>
   fst (next_outcome (os0\<lparr>inq := []\<rparr>)) = None \<and> ws_col (window os_raw) \<noteq> 0 \<and>
   get_term_size this0 (os0\<lparr>inq := []\<rparr>) = (Inr (24, 80), os0\<lparr>inq := []\<rparr>) \<and>
   BaseTerminal_dtor this0 (os_raw\<lparr>script := [None, Some 5]\<rparr>) =
     (Inr (), os0\<lparr>inq := [], script := [Some 5]\<rparr>) \<and>
   fst (next_outcome (os0\<lparr>inq := [], script := [Some 5]\<rparr>)) = Some 5 \<and>
   fst (get_term_size this0 (os0\<lparr>inq := [], script := [Some 5]\<rparr>)) =
     Inl (runtime_error ''ioctl() failed'') \<and>
   fst (read_raw this0 7 (os0\<lparr>inq := [], script := [Some 5]\<rparr>)) =
     Inl (runtime_error ''read() failed'') \<and>
   BaseTerminal_dtor this0 (os_raw\<lparr>window := \<lparr>ws_row = 24, ws_col = 0, ws_xpixel = 0, ws_ypixel = 0\<rparr>\<rparr>) =
     (Inr (), os0\<lparr>inq := [], window := \<lparr>ws_row = 24, ws_col = 0, ws_xpixel = 0, ws_ypixel = 0\<rparr>\<rparr>) \<and>
   ws_col (window (os_raw\<lparr>window := \<lparr>ws_row = 24, ws_col = 0, ws_xpixel = 0, ws_ypixel = 0\<rparr>\<rparr>)) = 0 \<and>
   fst (get_term_size this0 (os0\<lparr>inq := [], window := \<lparr>ws_row = 24, ws_col = 0, ws_xpixel = 0, ws_ypixel = 0\<rparr>\<rparr>)) =
     Inl (runtime_error ''ioctl() failed'') \<and>
   BaseTerminal_win32_dtor this0_win32 con_raw = (Inr (), con0) \<and>
   hout this0_win32 = ConsoleOutput \<and> fst (next_api con0) = False \<and>
   fst (kbhit con0) = False \<and>
   get_term_size_win32 this0_win32 (screen con0) con0 = ((24, 80), con0) \<and>
   read_raw_win32 this0_win32 0 7 con0 = (Inr (False, 7), con0) \<and>
   BaseTerminal_win32_dtor this0_win32
       (con_raw\<lparr>kbhit_script := [True], api_script := [False, False, True]\<rparr>) =
     (Inr (), con0\<lparr>kbhit_script := [True], api_script := [True]\<rparr>) \<and>
   read_raw_win32 this0_win32 0 7 (con0\<lparr>kbhit_script := [True], api_script := [True]\<rparr>) =
     (Inl (runtime_error ''ReadFile() failed''), con0) \<and>
   hin this0_win32 = hin (this0_win32\<lparr>dwOriginalInMode := 0\<rparr>) \<and>
   hout this0_win32 = hout (this0_win32\<lparr>dwOriginalInMode := 0\<rparr>)"
  using no_released_state [where t = this0 and w = "os_raw" and r = "Inr ()"
      and ?w1.0 = "os0\<lparr>inq := []\<rparr>" and x = 5 and s = 7
      and e = "runtime_error ''read() failed''" and a = cooked and ?t0.0 = this0
      and t' = this0_win32 and c = "con_raw" and r' = "Inr ()"
      and ?c1.0 = "con0" and csbi = "screen con0" and buf = 0
      and t0' = "this0_win32\<lparr>dwOriginalInMode := 0\<rparr>"]
    no_released_state [where t = this0 and w = "os_raw\<lparr>script := [None, Some 5]\<rparr>" and r = "Inr ()"
      and ?w1.0 = "os0\<lparr>inq := [], script := [Some 5]\<rparr>" and x = 5 and s = 7
      and e = "runtime_error ''read() failed''" and a = cooked and ?t0.0 = this0
      and t' = this0_win32 and c = "con_raw\<lparr>kbhit_script := [True], api_script := [False, False, True]\<rparr>" and r' = "Inr ()"
      and ?c1.0 = "con0\<lparr>kbhit_script := [True], api_script := [True]\<rparr>" and csbi = "screen con0" and buf = 0
      and t0' = "this0_win32\<lparr>dwOriginalInMode := 0\<rparr>"]
    no_released_state [where t = this0 and w = "os_raw\<lparr>window := \<lparr>ws_row = 24, ws_col = 0, ws_xpixel = 0, ws_ypixel = 0\<rparr>\<rparr>" and r = "Inr ()"
      and ?w1.0 = "os0\<lparr>inq := [], window := \<lparr>ws_row = 24, ws_col = 0, ws_xpixel = 0, ws_ypixel = 0\<rparr>\<rparr>" and x = 5 and s = 7
      and e = "runtime_error ''read() failed''" and a = cooked and ?t0.0 = this0
      and t' = this0_win32 and c = "con_raw" and r' = "Inr ()"
      and ?c1.0 = "con0" and csbi = "screen con0" and buf = 0
      and t0' = "this0_win32\<lparr>dwOriginalInMode := 0\<rparr>"]
    no_released_state [where t = this0 and w = "os_raw" and r = "Inr ()"
      and ?w1.0 = "os0\<lparr>inq := []\<rparr>" and x = 5 and s = 7
      and e = "runtime_error ''ReadFile() failed''" and a = cooked and ?t0.0 = this0
      and t' = this0_win32 and c = "con_raw\<lparr>kbhit_script := [True], api_script := [False, False, True]\<rparr>" and r' = "Inr ()"
      and ?c1.0 = "con0\<lparr>kbhit_script := [True], api_script := [True]\<rparr>" and csbi = "screen con0" and buf = 0
      and t0' = "this0_win32\<lparr>dwOriginalInMode := 0\<rparr>"]
  by (simp add: posix_eval win32_eval example_states)

end
